theory Spec2Isabelle
  imports Main "HOL-Library.Word"
begin

unbundle bit_operations_syntax

section \<open>The engine header\<close>

text \<open>
  The binding is compiled against the engine's C header \<^verbatim>\<open>tox/tox.h\<close>, which is not part
  of the repository. The Go code names the header's enumerators and never their numeric
  values, so every operation below takes the header as a parameter: for each C enumeration
  the binding uses, a valuation that gives every enumerator named in the Go sources its
  integer value. A value of the C type that is no named enumerator (a newer engine) is any
  integer outside the range of the valuation.
\<close>

datatype TOX_ERR_NEW =
    TOX_ERR_NEW_OK | TOX_ERR_NEW_NULL | TOX_ERR_NEW_MALLOC | TOX_ERR_NEW_PORT_ALLOC
  | TOX_ERR_NEW_PROXY_BAD_TYPE | TOX_ERR_NEW_PROXY_BAD_HOST | TOX_ERR_NEW_PROXY_BAD_PORT
  | TOX_ERR_NEW_PROXY_NOT_FOUND | TOX_ERR_NEW_LOAD_ENCRYPTED | TOX_ERR_NEW_LOAD_BAD_FORMAT

datatype TOX_ERR_BOOTSTRAP =
    TOX_ERR_BOOTSTRAP_OK | TOX_ERR_BOOTSTRAP_NULL | TOX_ERR_BOOTSTRAP_BAD_HOST
  | TOX_ERR_BOOTSTRAP_BAD_PORT

datatype TOX_ERR_SET_INFO =
    TOX_ERR_SET_INFO_OK | TOX_ERR_SET_INFO_NULL | TOX_ERR_SET_INFO_TOO_LONG

datatype TOX_ERR_FRIEND_ADD =
    TOX_ERR_FRIEND_ADD_OK | TOX_ERR_FRIEND_ADD_NULL | TOX_ERR_FRIEND_ADD_TOO_LONG
  | TOX_ERR_FRIEND_ADD_NO_MESSAGE | TOX_ERR_FRIEND_ADD_OWN_KEY
  | TOX_ERR_FRIEND_ADD_ALREADY_SENT | TOX_ERR_FRIEND_ADD_BAD_CHECKSUM
  | TOX_ERR_FRIEND_ADD_SET_NEW_NOSPAM | TOX_ERR_FRIEND_ADD_MALLOC

datatype TOX_ERR_FRIEND_DELETE =
    TOX_ERR_FRIEND_DELETE_OK | TOX_ERR_FRIEND_DELETE_FRIEND_NOT_FOUND

datatype TOX_ERR_FRIEND_QUERY =
    TOX_ERR_FRIEND_QUERY_OK | TOX_ERR_FRIEND_QUERY_NULL
  | TOX_ERR_FRIEND_QUERY_FRIEND_NOT_FOUND

datatype TOX_ERR_FRIEND_GET_PUBLIC_KEY =
    TOX_ERR_FRIEND_GET_PUBLIC_KEY_OK | TOX_ERR_FRIEND_GET_PUBLIC_KEY_FRIEND_NOT_FOUND

datatype TOX_ERR_FRIEND_BY_PUBLIC_KEY =
    TOX_ERR_FRIEND_BY_PUBLIC_KEY_OK | TOX_ERR_FRIEND_BY_PUBLIC_KEY_NULL
  | TOX_ERR_FRIEND_BY_PUBLIC_KEY_NOT_FOUND

datatype TOX_ERR_FRIEND_GET_LAST_ONLINE =
    TOX_ERR_FRIEND_GET_LAST_ONLINE_OK | TOX_ERR_FRIEND_GET_LAST_ONLINE_FRIEND_NOT_FOUND

datatype TOX_ERR_FRIEND_SEND_MESSAGE =
    TOX_ERR_FRIEND_SEND_MESSAGE_OK | TOX_ERR_FRIEND_SEND_MESSAGE_NULL
  | TOX_ERR_FRIEND_SEND_MESSAGE_FRIEND_NOT_FOUND
  | TOX_ERR_FRIEND_SEND_MESSAGE_FRIEND_NOT_CONNECTED
  | TOX_ERR_FRIEND_SEND_MESSAGE_SENDQ | TOX_ERR_FRIEND_SEND_MESSAGE_TOO_LONG
  | TOX_ERR_FRIEND_SEND_MESSAGE_EMPTY

datatype TOX_ERR_FRIEND_CUSTOM_PACKET =
    TOX_ERR_FRIEND_CUSTOM_PACKET_OK | TOX_ERR_FRIEND_CUSTOM_PACKET_NULL
  | TOX_ERR_FRIEND_CUSTOM_PACKET_FRIEND_NOT_FOUND
  | TOX_ERR_FRIEND_CUSTOM_PACKET_FRIEND_NOT_CONNECTED
  | TOX_ERR_FRIEND_CUSTOM_PACKET_INVALID | TOX_ERR_FRIEND_CUSTOM_PACKET_EMPTY
  | TOX_ERR_FRIEND_CUSTOM_PACKET_TOO_LONG | TOX_ERR_FRIEND_CUSTOM_PACKET_SENDQ

datatype TOX_CONNECTION = TOX_CONNECTION_NONE | TOX_CONNECTION_TCP | TOX_CONNECTION_UDP

datatype TOX_USER_STATUS = TOX_USER_STATUS_NONE | TOX_USER_STATUS_AWAY | TOX_USER_STATUS_BUSY

datatype TOX_MESSAGE_TYPE = TOX_MESSAGE_TYPE_NORMAL | TOX_MESSAGE_TYPE_ACTION

datatype TOX_PROXY_TYPE = TOX_PROXY_TYPE_NONE | TOX_PROXY_TYPE_HTTP | TOX_PROXY_TYPE_SOCKS5

datatype TOX_SAVEDATA_TYPE = TOX_SAVEDATA_TYPE_NONE | TOX_SAVEDATA_TYPE_TOX_SAVE

record tox_h =
  ERR_NEW :: "TOX_ERR_NEW \<Rightarrow> int"
  ERR_BOOTSTRAP :: "TOX_ERR_BOOTSTRAP \<Rightarrow> int"
  ERR_SET_INFO :: "TOX_ERR_SET_INFO \<Rightarrow> int"
  ERR_FRIEND_ADD :: "TOX_ERR_FRIEND_ADD \<Rightarrow> int"
  ERR_FRIEND_DELETE :: "TOX_ERR_FRIEND_DELETE \<Rightarrow> int"
  ERR_FRIEND_QUERY :: "TOX_ERR_FRIEND_QUERY \<Rightarrow> int"
  ERR_FRIEND_GET_PUBLIC_KEY :: "TOX_ERR_FRIEND_GET_PUBLIC_KEY \<Rightarrow> int"
  ERR_FRIEND_BY_PUBLIC_KEY :: "TOX_ERR_FRIEND_BY_PUBLIC_KEY \<Rightarrow> int"
  ERR_FRIEND_GET_LAST_ONLINE :: "TOX_ERR_FRIEND_GET_LAST_ONLINE \<Rightarrow> int"
  ERR_FRIEND_SEND_MESSAGE :: "TOX_ERR_FRIEND_SEND_MESSAGE \<Rightarrow> int"
  ERR_FRIEND_CUSTOM_PACKET :: "TOX_ERR_FRIEND_CUSTOM_PACKET \<Rightarrow> int"
  CONNECTION :: "TOX_CONNECTION \<Rightarrow> int"
  USER_STATUS :: "TOX_USER_STATUS \<Rightarrow> int"
  MESSAGE_TYPE :: "TOX_MESSAGE_TYPE \<Rightarrow> int"
  PROXY_TYPE :: "TOX_PROXY_TYPE \<Rightarrow> int"
  SAVEDATA_TYPE :: "TOX_SAVEDATA_TYPE \<Rightarrow> int"
  PUBLIC_KEY_SIZE :: nat

section \<open>Errors (errors.go)\<close>

text \<open>
  Every error of errors.go is a package variable holding its own value made by
  \<^verbatim>\<open>errors.New\<close>: several share a message and are still different errors. The two
  errors that tox.go makes on the spot (\<^verbatim>\<open>errors.New("unknown proxy type")\<close>,
  \<^verbatim>\<open>errors.New("invalid public key")\<close>) carry their message, and the error of
  \<^verbatim>\<open>hex.DecodeString\<close> is passed on as it is.
\<close>

datatype hex_error = ErrLength | InvalidByteError char

datatype error =
    ToxErrOptionsNewMalloc
  | ToxErrNewNull | ToxErrNewMalloc | ToxErrNewPortAlloc | ToxErrNewProxyBadType
  | ToxErrNewProxyBadHost | ToxErrNewProxyBadPort | ToxErrNewProxyNotFound
  | ToxErrNewLoadEncrypted | ToxErrNewLoadBadFormat
  | ToxErrBootstrapNull | ToxErrBootstrapBadHost | ToxErrBootstrapBadPort
  | ToxErrSetInfoNull | ToxErrSetInfoTooLong
  | ToxErrFriendAddNull | ToxErrFriendAddTooLong | ToxErrFriendAddNoMessage
  | ToxErrFriendAddOwnKey | ToxErrFriendAddAlreadySent | ToxErrFriendAddBadChecksum
  | ToxErrFriendAddSetNewNoSpam | ToxErrFriendAddMalloc
  | ToxErrFriendDeleteFriendNotFound
  | ToxErrFriendByPublicKeyNull | ToxErrFriendByPublicKeyNotFound
  | ToxErrFriendGetPublicKeyFriendNotFound
  | ToxErrFriendGetLastOnlineFriendNotFound
  | ToxErrFriendQueryNull | ToxErrFriendQueryFriendNotFound
  | ToxErrSetTypingFriendNotFound
  | ToxErrFriendSendMessageNull | ToxErrFriendSendMessageFriendNotFound
  | ToxErrFriendSendMessageFriendNotConnected | ToxErrFriendSendMessageSendQ
  | ToxErrFriendSendMessageTooLong | ToxErrFriendSendMessageEmpty
  | ToxErrFriendCustomPacketNull | ToxErrFriendCustomPacketFriendNotFound
  | ToxErrFriendCustomPacketFriendNotConnected | ToxErrFriendCustomPacketInvalid
  | ToxErrFriendCustomPacketEmpty | ToxErrFriendCustomPacketTooLong
  | ToxErrFriendCustomPacketSendQ
  | ToxErrUnknown
  | errors_New string
  | hex_Error hex_error

section \<open>Translation of the engine's result codes (tox.go)\<close>

text \<open>
  tox.go has no function that classifies a result code: every operation runs, after its
  engine call, the statement
  \<^verbatim>\<open>if (c_error != C.X_OK) { switch c_error { case C.X_A: throw = ToxErrA ... default: throw = ToxErrUnknown } }\<close>
  on its result \<^verbatim>\<open>throw\<close>, which is \<^verbatim>\<open>nil\<close> before. There is one such statement for
  each error enumeration of the header, repeated word for word in the operations of the
  family. Each definition here is that statement: the value of \<^verbatim>\<open>throw\<close> after it
  (\<open>None\<close> is \<^verbatim>\<open>nil\<close>), with the cases in the order of the source.
\<close>

text \<open>New (tox.go, lines 146 to 168).\<close>

definition throw_ERR_NEW :: "tox_h \<Rightarrow> int \<Rightarrow> error option" where
  "throw_ERR_NEW H c_error =
     (if c_error \<noteq> ERR_NEW H TOX_ERR_NEW_OK then
        if c_error = ERR_NEW H TOX_ERR_NEW_NULL then Some ToxErrNewNull
        else if c_error = ERR_NEW H TOX_ERR_NEW_MALLOC then Some ToxErrNewMalloc
        else if c_error = ERR_NEW H TOX_ERR_NEW_PORT_ALLOC then Some ToxErrNewPortAlloc
        else if c_error = ERR_NEW H TOX_ERR_NEW_PROXY_BAD_TYPE then Some ToxErrNewProxyBadType
        else if c_error = ERR_NEW H TOX_ERR_NEW_PROXY_BAD_HOST then Some ToxErrNewProxyBadHost
        else if c_error = ERR_NEW H TOX_ERR_NEW_PROXY_BAD_PORT then Some ToxErrNewProxyBadPort
        else if c_error = ERR_NEW H TOX_ERR_NEW_PROXY_NOT_FOUND then Some ToxErrNewProxyNotFound
        else if c_error = ERR_NEW H TOX_ERR_NEW_LOAD_ENCRYPTED then Some ToxErrNewLoadEncrypted
        else if c_error = ERR_NEW H TOX_ERR_NEW_LOAD_BAD_FORMAT then Some ToxErrNewLoadBadFormat
        else Some ToxErrUnknown
      else None)"

text \<open>Bootstrap (lines 823 to 834).\<close>

definition throw_ERR_BOOTSTRAP :: "tox_h \<Rightarrow> int \<Rightarrow> error option" where
  "throw_ERR_BOOTSTRAP H c_error =
     (if c_error \<noteq> ERR_BOOTSTRAP H TOX_ERR_BOOTSTRAP_OK then
        if c_error = ERR_BOOTSTRAP H TOX_ERR_BOOTSTRAP_NULL then Some ToxErrBootstrapNull
        else if c_error = ERR_BOOTSTRAP H TOX_ERR_BOOTSTRAP_BAD_HOST then Some ToxErrBootstrapBadHost
        else if c_error = ERR_BOOTSTRAP H TOX_ERR_BOOTSTRAP_BAD_PORT then Some ToxErrBootstrapBadPort
        else Some ToxErrUnknown
      else None)"

text \<open>SetName (lines 325 to 334) and SetStatusMessage (lines 387 to 396).\<close>

definition throw_ERR_SET_INFO :: "tox_h \<Rightarrow> int \<Rightarrow> error option" where
  "throw_ERR_SET_INFO H c_error =
     (if c_error \<noteq> ERR_SET_INFO H TOX_ERR_SET_INFO_OK then
        if c_error = ERR_SET_INFO H TOX_ERR_SET_INFO_NULL then Some ToxErrSetInfoNull
        else if c_error = ERR_SET_INFO H TOX_ERR_SET_INFO_TOO_LONG then Some ToxErrSetInfoTooLong
        else Some ToxErrUnknown
      else None)"

text \<open>FriendAdd (lines 440 to 460) and FriendAddNoRequest (lines 472 to 492).\<close>

definition throw_ERR_FRIEND_ADD :: "tox_h \<Rightarrow> int \<Rightarrow> error option" where
  "throw_ERR_FRIEND_ADD H c_error =
     (if c_error \<noteq> ERR_FRIEND_ADD H TOX_ERR_FRIEND_ADD_OK then
        if c_error = ERR_FRIEND_ADD H TOX_ERR_FRIEND_ADD_NULL then Some ToxErrFriendAddNull
        else if c_error = ERR_FRIEND_ADD H TOX_ERR_FRIEND_ADD_TOO_LONG then Some ToxErrFriendAddTooLong
        else if c_error = ERR_FRIEND_ADD H TOX_ERR_FRIEND_ADD_NO_MESSAGE then Some ToxErrFriendAddNoMessage
        else if c_error = ERR_FRIEND_ADD H TOX_ERR_FRIEND_ADD_OWN_KEY then Some ToxErrFriendAddOwnKey
        else if c_error = ERR_FRIEND_ADD H TOX_ERR_FRIEND_ADD_ALREADY_SENT then Some ToxErrFriendAddAlreadySent
        else if c_error = ERR_FRIEND_ADD H TOX_ERR_FRIEND_ADD_BAD_CHECKSUM then Some ToxErrFriendAddBadChecksum
        else if c_error = ERR_FRIEND_ADD H TOX_ERR_FRIEND_ADD_SET_NEW_NOSPAM then Some ToxErrFriendAddSetNewNoSpam
        else if c_error = ERR_FRIEND_ADD H TOX_ERR_FRIEND_ADD_MALLOC then Some ToxErrFriendAddMalloc
        else Some ToxErrUnknown
      else None)"

text \<open>FriendDelete (lines 504 to 511).\<close>

definition throw_ERR_FRIEND_DELETE :: "tox_h \<Rightarrow> int \<Rightarrow> error option" where
  "throw_ERR_FRIEND_DELETE H c_error =
     (if c_error \<noteq> ERR_FRIEND_DELETE H TOX_ERR_FRIEND_DELETE_OK then
        if c_error = ERR_FRIEND_DELETE H TOX_ERR_FRIEND_DELETE_FRIEND_NOT_FOUND then Some ToxErrFriendDeleteFriendNotFound
        else Some ToxErrUnknown
      else None)"

text \<open>FriendGetName, FriendGetStatus, FriendGetStatusMessage and FriendGetConnectionStatus (the same switch at lines 530, 546, 603, 630, 646 and 666).\<close>

definition throw_ERR_FRIEND_QUERY :: "tox_h \<Rightarrow> int \<Rightarrow> error option" where
  "throw_ERR_FRIEND_QUERY H c_error =
     (if c_error \<noteq> ERR_FRIEND_QUERY H TOX_ERR_FRIEND_QUERY_OK then
        if c_error = ERR_FRIEND_QUERY H TOX_ERR_FRIEND_QUERY_NULL then Some ToxErrFriendQueryNull
        else if c_error = ERR_FRIEND_QUERY H TOX_ERR_FRIEND_QUERY_FRIEND_NOT_FOUND then Some ToxErrFriendQueryFriendNotFound
        else Some ToxErrUnknown
      else None)"

text \<open>FriendGetPublicKey (lines 567 to 574).\<close>

definition throw_ERR_FRIEND_GET_PUBLIC_KEY :: "tox_h \<Rightarrow> int \<Rightarrow> error option" where
  "throw_ERR_FRIEND_GET_PUBLIC_KEY H c_error =
     (if c_error \<noteq> ERR_FRIEND_GET_PUBLIC_KEY H TOX_ERR_FRIEND_GET_PUBLIC_KEY_OK then
        if c_error = ERR_FRIEND_GET_PUBLIC_KEY H TOX_ERR_FRIEND_GET_PUBLIC_KEY_FRIEND_NOT_FOUND then Some ToxErrFriendGetPublicKeyFriendNotFound
        else Some ToxErrUnknown
      else None)"

text \<open>FriendByPublicKey (lines 583 to 591).\<close>

definition throw_ERR_FRIEND_BY_PUBLIC_KEY :: "tox_h \<Rightarrow> int \<Rightarrow> error option" where
  "throw_ERR_FRIEND_BY_PUBLIC_KEY H c_error =
     (if c_error \<noteq> ERR_FRIEND_BY_PUBLIC_KEY H TOX_ERR_FRIEND_BY_PUBLIC_KEY_OK then
        if c_error = ERR_FRIEND_BY_PUBLIC_KEY H TOX_ERR_FRIEND_BY_PUBLIC_KEY_NULL then Some ToxErrFriendByPublicKeyNull
        else if c_error = ERR_FRIEND_BY_PUBLIC_KEY H TOX_ERR_FRIEND_BY_PUBLIC_KEY_NOT_FOUND then Some ToxErrFriendByPublicKeyNotFound
        else Some ToxErrUnknown
      else None)"

text \<open>FriendGetLastOnline (lines 693 to 699).\<close>

definition throw_ERR_FRIEND_GET_LAST_ONLINE :: "tox_h \<Rightarrow> int \<Rightarrow> error option" where
  "throw_ERR_FRIEND_GET_LAST_ONLINE H c_error =
     (if c_error \<noteq> ERR_FRIEND_GET_LAST_ONLINE H TOX_ERR_FRIEND_GET_LAST_ONLINE_OK then
        if c_error = ERR_FRIEND_GET_LAST_ONLINE H TOX_ERR_FRIEND_GET_LAST_ONLINE_FRIEND_NOT_FOUND then Some ToxErrFriendGetLastOnlineFriendNotFound
        else Some ToxErrUnknown
      else None)"

text \<open>FriendSendMessage (lines 727 to 743).\<close>

definition throw_ERR_FRIEND_SEND_MESSAGE :: "tox_h \<Rightarrow> int \<Rightarrow> error option" where
  "throw_ERR_FRIEND_SEND_MESSAGE H c_error =
     (if c_error \<noteq> ERR_FRIEND_SEND_MESSAGE H TOX_ERR_FRIEND_SEND_MESSAGE_OK then
        if c_error = ERR_FRIEND_SEND_MESSAGE H TOX_ERR_FRIEND_SEND_MESSAGE_NULL then Some ToxErrFriendSendMessageNull
        else if c_error = ERR_FRIEND_SEND_MESSAGE H TOX_ERR_FRIEND_SEND_MESSAGE_FRIEND_NOT_FOUND then Some ToxErrFriendSendMessageFriendNotFound
        else if c_error = ERR_FRIEND_SEND_MESSAGE H TOX_ERR_FRIEND_SEND_MESSAGE_FRIEND_NOT_CONNECTED then Some ToxErrFriendSendMessageFriendNotConnected
        else if c_error = ERR_FRIEND_SEND_MESSAGE H TOX_ERR_FRIEND_SEND_MESSAGE_SENDQ then Some ToxErrFriendSendMessageSendQ
        else if c_error = ERR_FRIEND_SEND_MESSAGE H TOX_ERR_FRIEND_SEND_MESSAGE_TOO_LONG then Some ToxErrFriendSendMessageTooLong
        else if c_error = ERR_FRIEND_SEND_MESSAGE H TOX_ERR_FRIEND_SEND_MESSAGE_EMPTY then Some ToxErrFriendSendMessageEmpty
        else Some ToxErrUnknown
      else None)"

text \<open>FriendSendLosslessPacket (lines 760 to 778).\<close>

definition throw_ERR_FRIEND_CUSTOM_PACKET :: "tox_h \<Rightarrow> int \<Rightarrow> error option" where
  "throw_ERR_FRIEND_CUSTOM_PACKET H c_error =
     (if c_error \<noteq> ERR_FRIEND_CUSTOM_PACKET H TOX_ERR_FRIEND_CUSTOM_PACKET_OK then
        if c_error = ERR_FRIEND_CUSTOM_PACKET H TOX_ERR_FRIEND_CUSTOM_PACKET_NULL then Some ToxErrFriendCustomPacketNull
        else if c_error = ERR_FRIEND_CUSTOM_PACKET H TOX_ERR_FRIEND_CUSTOM_PACKET_FRIEND_NOT_FOUND then Some ToxErrFriendCustomPacketFriendNotFound
        else if c_error = ERR_FRIEND_CUSTOM_PACKET H TOX_ERR_FRIEND_CUSTOM_PACKET_FRIEND_NOT_CONNECTED then Some ToxErrFriendCustomPacketFriendNotConnected
        else if c_error = ERR_FRIEND_CUSTOM_PACKET H TOX_ERR_FRIEND_CUSTOM_PACKET_INVALID then Some ToxErrFriendCustomPacketInvalid
        else if c_error = ERR_FRIEND_CUSTOM_PACKET H TOX_ERR_FRIEND_CUSTOM_PACKET_EMPTY then Some ToxErrFriendCustomPacketEmpty
        else if c_error = ERR_FRIEND_CUSTOM_PACKET H TOX_ERR_FRIEND_CUSTOM_PACKET_TOO_LONG then Some ToxErrFriendCustomPacketTooLong
        else if c_error = ERR_FRIEND_CUSTOM_PACKET H TOX_ERR_FRIEND_CUSTOM_PACKET_SENDQ then Some ToxErrFriendCustomPacketSendQ
        else Some ToxErrUnknown
      else None)"

section \<open>Go values\<close>

text \<open>
  A Go \<^verbatim>\<open>[]byte\<close> is \<^verbatim>\<open>nil\<close> (\<open>None\<close>) or a present sequence of bytes, which may be
  empty; \<^verbatim>\<open>len\<close> is 0 for both, and \<^verbatim>\<open>make([]byte, n)\<close> is present and zeroed, also for
  \<open>n = 0\<close>. Allocation is taken to succeed. A Go \<^verbatim>\<open>string\<close> is a sequence of bytes, any
  byte value included, here a list of 8-bit characters.
\<close>

type_synonym byte = "8 word"
type_synonym slice = "byte list option"

definition len :: "slice \<Rightarrow> nat" where
  "len s = (case s of None \<Rightarrow> 0 | Some bs \<Rightarrow> length bs)"

definition elems :: "slice \<Rightarrow> byte list" where
  "elems s = (case s of None \<Rightarrow> [] | Some bs \<Rightarrow> bs)"

definition make_slice :: "nat \<Rightarrow> slice" where
  "make_slice n = Some (replicate n 0)"

definition byte_of_char :: "char \<Rightarrow> byte" where
  "byte_of_char c = of_nat (of_char c)"

definition char_of_byte :: "byte \<Rightarrow> char" where
  "char_of_byte b = char_of (unat b)"

section \<open>Types (types.go)\<close>

text \<open>A C pointer is \<^verbatim>\<open>NULL\<close> (\<open>None\<close>) or an address of the C heap.\<close>

type_synonym ptr = "nat option"

definition ToxConnectionNone :: int where "ToxConnectionNone = 0"
definition ToxConnectionTCP :: int where "ToxConnectionTCP = 1"
definition ToxConnectionUDP :: int where "ToxConnectionUDP = 2"

definition ToxUserStatusNone :: int where "ToxUserStatusNone = 0"
definition ToxUserStatusAway :: int where "ToxUserStatusAway = 1"
definition ToxUserStatusBusy :: int where "ToxUserStatusBusy = 2"

definition ToxMessageTypeNormal :: int where "ToxMessageTypeNormal = 0"
definition ToxMessageTypeAction :: int where "ToxMessageTypeAction = 1"

definition ToxProxyTypeNone :: int where "ToxProxyTypeNone = 0"
definition ToxProxyTypeHttp :: int where "ToxProxyTypeHttp = 1"
definition ToxProxyTypeSocks5 :: int where "ToxProxyTypeSocks5 = 2"

text \<open>
  The four enumerated Go types are \<^verbatim>\<open>int\<close>: a value of the type is any integer, the
  named constants are 0, 1, 2 by \<^verbatim>\<open>iota\<close>.
\<close>

record ToxOptions =
  IPv6Enabled :: bool
  UDPEnabled :: bool
  ProxyType :: int
  ProxyHost :: string
  ProxyPort :: "16 word"
  StartPort :: "16 word"
  EndPort :: "16 word"
  TCPPort :: "16 word"
  SaveData :: slice

record SeedNode =
  Host :: string
  Port :: "16 word"
  PublicKey :: string

text \<open>\<^verbatim>\<open>struct Tox_Options\<close> of the header, with the fields that tox.go reads and writes.\<close>

record Tox_Options =
  ipv6_enabled :: bool
  udp_enabled :: bool
  proxy_type :: int
  proxy_host :: ptr
  proxy_port :: "16 word"
  start_port :: "16 word"
  end_port :: "16 word"
  tcp_port :: "16 word"
  savedata_type :: int
  savedata_data :: ptr
  savedata_length :: nat

text \<open>
  The instance. \<^verbatim>\<open>handle\<close> is the engine's pointer, \<^verbatim>\<open>lock\<close> the mutex (held or
  not), and each handler slot is \<^verbatim>\<open>nil\<close> or a Go function. A handler is modelled by what
  it does with the decoded arguments of its event, a value of type \<open>'r\<close>; its first
  argument in Go, the instance itself, is left out.
\<close>

record 'r Tox =
  handle :: nat
  lock :: bool
  onSelfConnectionStatus :: "(int \<Rightarrow> 'r) option"
  onFriendRequest :: "(byte list \<Rightarrow> slice \<Rightarrow> 'r) option"
  onFriendName :: "(32 word \<Rightarrow> slice \<Rightarrow> 'r) option"
  onFriendStatus :: "(32 word \<Rightarrow> int \<Rightarrow> 'r) option"
  onFriendStatusMessage :: "(32 word \<Rightarrow> slice \<Rightarrow> 'r) option"
  onFriendConnectionStatus :: "(32 word \<Rightarrow> int \<Rightarrow> 'r) option"
  onFriendMessage :: "(32 word \<Rightarrow> int \<Rightarrow> slice \<Rightarrow> 'r) option"
  onFriendLosslessPacket :: "(32 word \<Rightarrow> slice \<Rightarrow> 'r) option"
  userData :: ptr

section \<open>The C side: heap and engine calls\<close>

text \<open>
  The C heap holds the blocks made by \<^verbatim>\<open>C.malloc\<close>, each under its address, and the list
  of the addresses given to \<^verbatim>\<open>C.free\<close>, in order. With it goes the list of the calls of
  \<^verbatim>\<open>tox_new\<close>, \<^verbatim>\<open>tox_callback_*\<close> (one for each event kind of callbacks.h) and
  \<^verbatim>\<open>tox_bootstrap\<close> made so far, each with its arguments. A C pointer is \<^verbatim>\<open>NULL\<close> (\<open>None\<close>) or the
  address of a block. \<^verbatim>\<open>C.malloc\<close> of cgo never returns \<^verbatim>\<open>NULL\<close>, also for size 0: it
  returns an address not in use, here the next one of a counter.
\<close>

datatype event_kind =
    self_connection_status | friend_name | friend_request | friend_status_message
  | friend_status | friend_connection_status | friend_message | friend_lossless_packet

datatype engine_call =
    Call_tox_new "Tox_Options option"
  | Call_tox_callback event_kind nat
  | Call_tox_bootstrap nat nat "16 word" "byte list"

record c_world =
  blocks :: "nat \<Rightarrow> byte list option"
  brk :: nat
  freed :: "nat list"
  calls :: "engine_call list"

definition C_malloc :: "nat \<Rightarrow> c_world \<Rightarrow> nat \<times> c_world" where
  "C_malloc sz h =
     (brk h, h\<lparr>blocks := (blocks h)(brk h \<mapsto> replicate sz 0), brk := Suc (brk h)\<rparr>)"

definition C_free :: "ptr \<Rightarrow> c_world \<Rightarrow> c_world" where
  "C_free p h =
     (case p of
        None \<Rightarrow> h
      | Some a \<Rightarrow> h\<lparr>blocks := (blocks h)(a := None), freed := freed h @ [a]\<rparr>)"

text \<open>
  \<^verbatim>\<open>C.CString\<close> copies the bytes of a Go string into a new block and ends it with a NUL
  byte. \<^verbatim>\<open>C.GoString\<close> reads a C string up to its first NUL byte; of \<^verbatim>\<open>NULL\<close> it is the
  empty string. A read through an address that holds no block, or past the end of a block,
  has no defined result (\<open>None\<close>).
\<close>

definition C_CString :: "string \<Rightarrow> c_world \<Rightarrow> nat \<times> c_world" where
  "C_CString s h =
     (case C_malloc (length s + 1) h of
        (a, h') \<Rightarrow> (a, h'\<lparr>blocks := (blocks h')(a \<mapsto> map byte_of_char s @ [0])\<rparr>))"

definition C_GoString :: "c_world \<Rightarrow> ptr \<Rightarrow> string option" where
  "C_GoString h p =
     (case p of
        None \<Rightarrow> Some []
      | Some a \<Rightarrow>
          (case blocks h a of
             None \<Rightarrow> None
           | Some bs \<Rightarrow>
               if 0 \<in> set bs then Some (map char_of_byte (takeWhile (\<lambda>b. b \<noteq> 0) bs))
               else None))"

text \<open>
  slice2array (tox.go, lines 30 to 39): a block of \<^verbatim>\<open>len(slice)\<close> bytes, filled by the
  loop \<^verbatim>\<open>for i := 0; i < size; i++\<close>, one byte each round.
\<close>

function slice2array_loop :: "nat \<Rightarrow> nat \<Rightarrow> byte list \<Rightarrow> byte list \<Rightarrow> byte list" where
  "slice2array_loop i sz sl array =
     (if i < sz then slice2array_loop (i + 1) sz sl (array[i := sl ! i])
      else array)"
  by pat_completeness auto
termination
  by (relation "measure (\<lambda>(i, sz, sl, array). sz - i)") auto

declare slice2array_loop.simps [simp del]

definition slice2array :: "slice \<Rightarrow> c_world \<Rightarrow> nat \<times> c_world" where
  "slice2array sl h =
     (let sz = len sl in
      case C_malloc sz h of
        (a, h') \<Rightarrow>
          (a, h'\<lparr>blocks := (blocks h')(a \<mapsto>
                   slice2array_loop 0 sz (elems sl) (replicate sz 0))\<rparr>))"

text \<open>
  array2slice (lines 42 to 50): a new slice of \<^verbatim>\<open>size\<close> bytes, filled by the same kind of
  loop from the block at \<^verbatim>\<open>array\<close>. With \<open>size = 0\<close> nothing is read.
\<close>

function array2slice_loop :: "nat \<Rightarrow> nat \<Rightarrow> byte list \<Rightarrow> byte list \<Rightarrow> byte list" where
  "array2slice_loop i sz array sl =
     (if i < sz then array2slice_loop (i + 1) sz array (sl[i := array ! i])
      else sl)"
  by pat_completeness auto
termination
  by (relation "measure (\<lambda>(i, sz, array, sl). sz - i)") auto

declare array2slice_loop.simps [simp del]

definition array2slice :: "c_world \<Rightarrow> ptr \<Rightarrow> nat \<Rightarrow> slice option" where
  "array2slice h array sz =
     (if sz = 0 then Some (make_slice 0)
      else case array of
        None \<Rightarrow> None
      | Some a \<Rightarrow>
          (case blocks h a of
             None \<Rightarrow> None
           | Some bs \<Rightarrow>
               if sz \<le> length bs
               then Some (Some (array2slice_loop 0 sz bs (replicate sz 0)))
               else None))"

section \<open>The engine\<close>

text \<open>
  The engine is outside the repository. It is a parameter: for each C function that the
  operations below call, what that call returns and writes. A C function with an error
  out-parameter gives the code it stores there; one that fills a buffer gives the bytes it
  writes. A pointer argument into Go memory is passed as what it points to: \<open>None\<close> for
  \<^verbatim>\<open>NULL\<close>, else the buffer. The first argument of each is the handle.
\<close>

record engine =
  tox_new :: "Tox_Options option \<Rightarrow> c_world \<Rightarrow> nat \<times> int"
  tox_get_savedata_size :: "nat \<Rightarrow> nat"
  tox_get_savedata :: "nat \<Rightarrow> byte list"
  tox_self_get_name_size :: "nat \<Rightarrow> nat"
  tox_self_get_name :: "nat \<Rightarrow> slice \<Rightarrow> byte list"
  tox_self_set_name :: "nat \<Rightarrow> slice \<Rightarrow> nat \<Rightarrow> int"
  tox_self_get_status_message_size :: "nat \<Rightarrow> nat"
  tox_self_get_status_message :: "nat \<Rightarrow> slice \<Rightarrow> byte list"
  tox_self_set_status_message :: "nat \<Rightarrow> slice \<Rightarrow> nat \<Rightarrow> int"
  tox_friend_add :: "nat \<Rightarrow> byte list \<Rightarrow> slice \<Rightarrow> nat \<Rightarrow> 32 word \<times> int"
  tox_friend_add_norequest :: "nat \<Rightarrow> byte list \<Rightarrow> 32 word \<times> int"
  tox_friend_delete :: "nat \<Rightarrow> 32 word \<Rightarrow> int"
  tox_friend_get_name_size :: "nat \<Rightarrow> 32 word \<Rightarrow> nat \<times> int"
  tox_friend_get_name :: "nat \<Rightarrow> 32 word \<Rightarrow> slice \<Rightarrow> byte list \<times> int"
  tox_friend_get_public_key :: "nat \<Rightarrow> 32 word \<Rightarrow> byte list \<times> int"
  tox_friend_by_public_key :: "nat \<Rightarrow> byte list \<Rightarrow> 32 word \<times> int"
  tox_friend_get_status :: "nat \<Rightarrow> 32 word \<Rightarrow> int \<times> int"
  tox_friend_get_status_message_size :: "nat \<Rightarrow> 32 word \<Rightarrow> nat \<times> int"
  tox_friend_get_status_message :: "nat \<Rightarrow> 32 word \<Rightarrow> slice \<Rightarrow> byte list \<times> int"
  tox_friend_get_connection_status :: "nat \<Rightarrow> 32 word \<Rightarrow> int \<times> int"
  tox_friend_get_last_online :: "nat \<Rightarrow> 32 word \<Rightarrow> 64 word \<times> int"
  tox_friend_send_message :: "nat \<Rightarrow> 32 word \<Rightarrow> int \<Rightarrow> slice \<Rightarrow> nat \<Rightarrow> 32 word \<times> int"
  tox_friend_send_lossless_packet :: "nat \<Rightarrow> 32 word \<Rightarrow> slice \<Rightarrow> nat \<Rightarrow> int"
  tox_bootstrap :: "nat \<Rightarrow> c_world \<Rightarrow> nat \<Rightarrow> 16 word \<Rightarrow> byte list \<Rightarrow> int"

text \<open>
  The Go idiom \<^verbatim>\<open>if (c_length > 0) { c_x = (*C.uint8_t)(&x[0]) }\<close> on a pointer that
  starts \<^verbatim>\<open>nil\<close>: the pointer to the first element of a slice that has one.
\<close>

definition first_elem :: "nat \<Rightarrow> slice \<Rightarrow> slice" where
  "first_elem c_length x = (if c_length > 0 then x else None)"

text \<open>
  What a Go buffer holds after the engine wrote \<open>data\<close> through the pointer \<open>c_x\<close>:
  nothing changes through \<^verbatim>\<open>NULL\<close>; else the bytes written replace the first bytes of
  the buffer, whose length stays.
\<close>

definition written :: "slice \<Rightarrow> byte list \<Rightarrow> slice" where
  "written c_x data =
     (case c_x of
        None \<Rightarrow> None
      | Some buf \<Rightarrow> Some (take (length buf) (data @ drop (length data) buf)))"

section \<open>Startup options (tox.go)\<close>

text \<open>GoOptions (lines 57 to 81). \<open>None\<close>: a read of C memory with no defined result.\<close>

definition GoOptions :: "tox_h \<Rightarrow> c_world \<Rightarrow> Tox_Options \<Rightarrow> (error + ToxOptions) option" where
  "GoOptions H w c_options =
     (case (if proxy_type c_options = PROXY_TYPE H TOX_PROXY_TYPE_NONE then Some ToxProxyTypeNone
            else if proxy_type c_options = PROXY_TYPE H TOX_PROXY_TYPE_HTTP then Some ToxProxyTypeHttp
            else if proxy_type c_options = PROXY_TYPE H TOX_PROXY_TYPE_SOCKS5 then Some ToxProxyTypeSocks5
            else None) of
        None \<Rightarrow> Some (Inl (errors_New ''unknown proxy type''))
      | Some t \<Rightarrow>
          (case C_GoString w (proxy_host c_options) of
             None \<Rightarrow> None
           | Some host \<Rightarrow>
               (case array2slice w (savedata_data c_options) (savedata_length c_options) of
                  None \<Rightarrow> None
                | Some data \<Rightarrow>
                    Some (Inr \<lparr>IPv6Enabled = ipv6_enabled c_options,
                               UDPEnabled = udp_enabled c_options,
                               ProxyType = t,
                               ProxyHost = host,
                               ProxyPort = proxy_port c_options,
                               StartPort = start_port c_options,
                               EndPort = end_port c_options,
                               TCPPort = tcp_port c_options,
                               SaveData = data\<rparr>))))"

text \<open>COptions (lines 86 to 114): the engine's options, or the error, and the heap after.\<close>

definition COptions :: "tox_h \<Rightarrow> ToxOptions \<Rightarrow> c_world \<Rightarrow> (error + Tox_Options) \<times> c_world" where
  "COptions H options w =
     (case (if ProxyType options = ToxProxyTypeNone then Some (PROXY_TYPE H TOX_PROXY_TYPE_NONE)
            else if ProxyType options = ToxProxyTypeHttp then Some (PROXY_TYPE H TOX_PROXY_TYPE_HTTP)
            else if ProxyType options = ToxProxyTypeSocks5 then Some (PROXY_TYPE H TOX_PROXY_TYPE_SOCKS5)
            else None) of
        None \<Rightarrow> (Inl (errors_New ''unknown proxy type''), w)
      | Some t \<Rightarrow>
          (case C_CString (ProxyHost options) w of
             (host, w1) \<Rightarrow>
               (let length = len (SaveData options) in
                case slice2array (SaveData options) w1 of
                  (data, w2) \<Rightarrow>
                    (Inr \<lparr>ipv6_enabled = IPv6Enabled options,
                          udp_enabled = UDPEnabled options,
                          proxy_type = t,
                          proxy_host = Some host,
                          proxy_port = ProxyPort options,
                          start_port = StartPort options,
                          end_port = EndPort options,
                          tcp_port = TCPPort options,
                          savedata_type =
                            (if length = 0 then SAVEDATA_TYPE H TOX_SAVEDATA_TYPE_NONE
                             else SAVEDATA_TYPE H TOX_SAVEDATA_TYPE_TOX_SAVE),
                          savedata_data = Some data,
                          savedata_length = length\<rparr>, w2))))"

text \<open>FreeOptions (lines 117 to 120).\<close>

definition FreeOptions :: "Tox_Options \<Rightarrow> c_world \<Rightarrow> c_world" where
  "FreeOptions c_options w = C_free (savedata_data c_options) (C_free (proxy_host c_options) w)"

text \<open>
  GoOptions applied to what COptions returns, in the heap that COptions leaves, as
  TestConvertOptions does (tox_test.go, lines 52 to 54).
\<close>

definition GoOptions_of_COptions :: "tox_h \<Rightarrow> ToxOptions \<Rightarrow> c_world \<Rightarrow> (error + ToxOptions) option" where
  "GoOptions_of_COptions H options w =
     (case COptions H options w of
        (Inl throw, w1) \<Rightarrow> Some (Inl throw)
      | (Inr c_options, w1) \<Rightarrow> GoOptions H w1 c_options)"

section \<open>Instance lifecycle (tox.go)\<close>

text \<open>
  New (lines 135 to 176). The results are the two named results \<^verbatim>\<open>tox\<close> and
  \<^verbatim>\<open>throw\<close>, each \<^verbatim>\<open>nil\<close> until assigned. The deferred \<^verbatim>\<open>FreeOptions\<close> runs when the
  function returns, after the engine call and the translation of its code.
\<close>

definition New_tox :: "tox_h \<Rightarrow> nat \<Rightarrow> int \<Rightarrow> 'r Tox option \<times> error option" where
  "New_tox H c_tox c_error =
     (if c_error \<noteq> ERR_NEW H TOX_ERR_NEW_OK then (None, throw_ERR_NEW H c_error)
      else (Some \<lparr>handle = c_tox, lock = False,
                  onSelfConnectionStatus = None, onFriendRequest = None, onFriendName = None,
                  onFriendStatus = None, onFriendStatusMessage = None,
                  onFriendConnectionStatus = None, onFriendMessage = None,
                  onFriendLosslessPacket = None, userData = None\<rparr>, None))"

definition C_tox_new :: "engine \<Rightarrow> Tox_Options option \<Rightarrow> c_world \<Rightarrow> (nat \<times> int) \<times> c_world" where
  "C_tox_new E c_options w =
     (tox_new E c_options w, w\<lparr>calls := calls w @ [Call_tox_new c_options]\<rparr>)"

definition New :: "tox_h \<Rightarrow> engine \<Rightarrow> ToxOptions option \<Rightarrow> c_world
    \<Rightarrow> ('r Tox option \<times> error option) \<times> c_world" where
  "New H E options w =
     (case options of
        None \<Rightarrow>
          (case C_tox_new E None w of
             ((c_tox, c_error), w1) \<Rightarrow> (New_tox H c_tox c_error, w1))
      | Some opts \<Rightarrow>
          (case COptions H opts w of
             (Inl throw, w1) \<Rightarrow> ((None, Some throw), w1)
           | (Inr c_options, w1) \<Rightarrow>
               (case C_tox_new E (Some c_options) w1 of
                  ((c_tox, c_error), w2) \<Rightarrow>
                    (New_tox H c_tox c_error, FreeOptions c_options w2))))"

text \<open>Serialize (lines 179 to 186).\<close>

definition Serialize :: "engine \<Rightarrow> 'r Tox \<Rightarrow> slice" where
  "Serialize E tox =
     (let c_length = tox_get_savedata_size E (handle tox);
          data = make_slice c_length
      in if c_length > 0 then written data (tox_get_savedata E (handle tox)) else data)"

section \<open>Client state (tox.go)\<close>

text \<open>GetName (lines 305 to 314).\<close>

definition GetName :: "engine \<Rightarrow> 'r Tox \<Rightarrow> slice" where
  "GetName E tox =
     (let c_length = tox_self_get_name_size E (handle tox);
          name = make_slice c_length;
          c_name = first_elem c_length name
      in case c_name of
           None \<Rightarrow> name
         | Some _ \<Rightarrow> written c_name (tox_self_get_name E (handle tox) c_name))"

text \<open>GetStatusMessage (lines 367 to 376).\<close>

definition GetStatusMessage :: "engine \<Rightarrow> 'r Tox \<Rightarrow> slice" where
  "GetStatusMessage E tox =
     (let c_length = tox_self_get_status_message_size E (handle tox);
          message = make_slice c_length;
          c_message = first_elem c_length message
      in case c_message of
           None \<Rightarrow> message
         | Some _ \<Rightarrow> written c_message (tox_self_get_status_message E (handle tox) c_message))"

text \<open>SetName (lines 317 to 336) and SetStatusMessage (lines 379 to 398).\<close>

definition SetName :: "tox_h \<Rightarrow> engine \<Rightarrow> 'r Tox \<Rightarrow> slice \<Rightarrow> error option" where
  "SetName H E tox name =
     (let c_length = len name;
          c_name = first_elem c_length name;
          c_error = tox_self_set_name E (handle tox) c_name c_length
      in throw_ERR_SET_INFO H c_error)"

definition SetStatusMessage :: "tox_h \<Rightarrow> engine \<Rightarrow> 'r Tox \<Rightarrow> slice \<Rightarrow> error option" where
  "SetStatusMessage H E tox message =
     (let c_length = len message;
          c_message = first_elem c_length message;
          c_error = tox_self_set_status_message E (handle tox) c_message c_length
      in throw_ERR_SET_INFO H c_error)"

section \<open>Friend management (tox.go)\<close>

text \<open>
  FriendAdd (lines 431 to 465), FriendAddNoRequest (lines 468 to 497) and FriendDelete
  (lines 500 to 513). An address and a public key are Go arrays of the header's sizes,
  here the list of their bytes.
\<close>

definition FriendAdd :: "tox_h \<Rightarrow> engine \<Rightarrow> 'r Tox \<Rightarrow> byte list \<Rightarrow> slice \<Rightarrow> 32 word \<times> error option" where
  "FriendAdd H E tox address message =
     (let c_length = len message;
          c_message = first_elem c_length message
      in case tox_friend_add E (handle tox) address c_message c_length of
           (c_friend_number, c_error) \<Rightarrow>
             if c_error \<noteq> ERR_FRIEND_ADD H TOX_ERR_FRIEND_ADD_OK
             then (0, throw_ERR_FRIEND_ADD H c_error)
             else (c_friend_number, None))"

definition FriendAddNoRequest :: "tox_h \<Rightarrow> engine \<Rightarrow> 'r Tox \<Rightarrow> byte list \<Rightarrow> 32 word \<times> error option" where
  "FriendAddNoRequest H E tox publicKey =
     (case tox_friend_add_norequest E (handle tox) publicKey of
        (c_friend_number, c_error) \<Rightarrow>
          if c_error \<noteq> ERR_FRIEND_ADD H TOX_ERR_FRIEND_ADD_OK
          then (0, throw_ERR_FRIEND_ADD H c_error)
          else (c_friend_number, None))"

definition FriendDelete :: "tox_h \<Rightarrow> engine \<Rightarrow> 'r Tox \<Rightarrow> 32 word \<Rightarrow> error option" where
  "FriendDelete H E tox friendNumber =
     throw_ERR_FRIEND_DELETE H (tox_friend_delete E (handle tox) friendNumber)"

section \<open>Friend state (tox.go)\<close>

text \<open>
  FriendGetName (lines 526 to 559). The result \<^verbatim>\<open>name\<close> is \<^verbatim>\<open>nil\<close> until
  \<^verbatim>\<open>make\<close>, and is set back to \<^verbatim>\<open>nil\<close> when the second engine call fails.
\<close>

definition FriendGetName :: "tox_h \<Rightarrow> engine \<Rightarrow> 'r Tox \<Rightarrow> 32 word \<Rightarrow> slice \<times> error option" where
  "FriendGetName H E tox friendNumber =
     (case tox_friend_get_name_size E (handle tox) friendNumber of
        (c_length, c_error) \<Rightarrow>
          if c_error \<noteq> ERR_FRIEND_QUERY H TOX_ERR_FRIEND_QUERY_OK
          then (None, throw_ERR_FRIEND_QUERY H c_error)
          else
            (let name = make_slice c_length;
                 c_name = first_elem c_length name
             in case tox_friend_get_name E (handle tox) friendNumber c_name of
                  (data, c_error) \<Rightarrow>
                    if c_error \<noteq> ERR_FRIEND_QUERY H TOX_ERR_FRIEND_QUERY_OK
                    then (None, throw_ERR_FRIEND_QUERY H c_error)
                    else (case c_name of None \<Rightarrow> name | Some _ \<Rightarrow> written c_name data,
                          None)))"

text \<open>FriendGetPublicKey (lines 562 to 576): the key array is returned also with an error.\<close>

definition FriendGetPublicKey :: "tox_h \<Rightarrow> engine \<Rightarrow> 'r Tox \<Rightarrow> 32 word \<Rightarrow> byte list \<times> error option" where
  "FriendGetPublicKey H E tox friendNumber =
     (case tox_friend_get_public_key E (handle tox) friendNumber of
        (data, c_error) \<Rightarrow>
          (elems (written (Some (replicate (PUBLIC_KEY_SIZE H) 0)) data),
           throw_ERR_FRIEND_GET_PUBLIC_KEY H c_error))"

text \<open>FriendByPublicKey (lines 579 to 596).\<close>

definition FriendByPublicKey :: "tox_h \<Rightarrow> engine \<Rightarrow> 'r Tox \<Rightarrow> byte list \<Rightarrow> 32 word \<times> error option" where
  "FriendByPublicKey H E tox publicKey =
     (case tox_friend_by_public_key E (handle tox) publicKey of
        (c_friend_number, c_error) \<Rightarrow>
          if c_error \<noteq> ERR_FRIEND_BY_PUBLIC_KEY H TOX_ERR_FRIEND_BY_PUBLIC_KEY_OK
          then (0, throw_ERR_FRIEND_BY_PUBLIC_KEY H c_error)
          else (c_friend_number, None))"

text \<open>FriendGetStatus (lines 599 to 623).\<close>

definition FriendGetStatus :: "tox_h \<Rightarrow> engine \<Rightarrow> 'r Tox \<Rightarrow> 32 word \<Rightarrow> int \<times> error option" where
  "FriendGetStatus H E tox friendNumber =
     (case tox_friend_get_status E (handle tox) friendNumber of
        (c_status, c_error) \<Rightarrow>
          if c_error \<noteq> ERR_FRIEND_QUERY H TOX_ERR_FRIEND_QUERY_OK
          then (0, throw_ERR_FRIEND_QUERY H c_error)
          else
            (if c_status = USER_STATUS H TOX_USER_STATUS_AWAY then ToxUserStatusAway
             else if c_status = USER_STATUS H TOX_USER_STATUS_BUSY then ToxUserStatusBusy
             else ToxUserStatusNone, None))"

text \<open>FriendGetStatusMessage (lines 626 to 659).\<close>

definition FriendGetStatusMessage :: "tox_h \<Rightarrow> engine \<Rightarrow> 'r Tox \<Rightarrow> 32 word \<Rightarrow> slice \<times> error option" where
  "FriendGetStatusMessage H E tox friendNumber =
     (case tox_friend_get_status_message_size E (handle tox) friendNumber of
        (c_length, c_error) \<Rightarrow>
          if c_error \<noteq> ERR_FRIEND_QUERY H TOX_ERR_FRIEND_QUERY_OK
          then (None, throw_ERR_FRIEND_QUERY H c_error)
          else
            (let message = make_slice c_length;
                 c_message = first_elem c_length message
             in case tox_friend_get_status_message E (handle tox) friendNumber c_message of
                  (data, c_error) \<Rightarrow>
                    if c_error \<noteq> ERR_FRIEND_QUERY H TOX_ERR_FRIEND_QUERY_OK
                    then (None, throw_ERR_FRIEND_QUERY H c_error)
                    else (case c_message of None \<Rightarrow> message | Some _ \<Rightarrow> written c_message data,
                          None)))"

text \<open>FriendGetConnectionStatus (lines 662 to 686).\<close>

definition FriendGetConnectionStatus :: "tox_h \<Rightarrow> engine \<Rightarrow> 'r Tox \<Rightarrow> 32 word \<Rightarrow> int \<times> error option" where
  "FriendGetConnectionStatus H E tox friendNumber =
     (case tox_friend_get_connection_status E (handle tox) friendNumber of
        (c_connection_status, c_error) \<Rightarrow>
          if c_error \<noteq> ERR_FRIEND_QUERY H TOX_ERR_FRIEND_QUERY_OK
          then (0, throw_ERR_FRIEND_QUERY H c_error)
          else
            (if c_connection_status = CONNECTION H TOX_CONNECTION_TCP then ToxConnectionTCP
             else if c_connection_status = CONNECTION H TOX_CONNECTION_UDP then ToxConnectionUDP
             else ToxConnectionNone, None))"

text \<open>
  FriendGetLastOnline (lines 689 to 704): the time is the zero \<^verbatim>\<open>time.Time\<close> (\<open>None\<close>)
  or \<^verbatim>\<open>time.Unix\<close> of the engine's seconds.
\<close>

definition FriendGetLastOnline :: "tox_h \<Rightarrow> engine \<Rightarrow> 'r Tox \<Rightarrow> 32 word \<Rightarrow> 64 word option \<times> error option" where
  "FriendGetLastOnline H E tox friendNumber =
     (case tox_friend_get_last_online E (handle tox) friendNumber of
        (c_timestamp, c_error) \<Rightarrow>
          if c_error \<noteq> ERR_FRIEND_GET_LAST_ONLINE H TOX_ERR_FRIEND_GET_LAST_ONLINE_OK
          then (None, throw_ERR_FRIEND_GET_LAST_ONLINE H c_error)
          else (Some c_timestamp, None))"

section \<open>Data transmission (tox.go)\<close>

text \<open>FriendSendMessage (lines 711 to 748).\<close>

definition FriendSendMessage :: "tox_h \<Rightarrow> engine \<Rightarrow> 'r Tox \<Rightarrow> 32 word \<Rightarrow> int \<Rightarrow> slice
    \<Rightarrow> 32 word \<times> error option" where
  "FriendSendMessage H E tox friendNumber messageType message =
     (let c_length = len message;
          c_message_type =
            (if messageType = ToxMessageTypeAction then MESSAGE_TYPE H TOX_MESSAGE_TYPE_ACTION
             else MESSAGE_TYPE H TOX_MESSAGE_TYPE_NORMAL);
          c_message = first_elem c_length message
      in case tox_friend_send_message E (handle tox) friendNumber c_message_type c_message c_length of
           (c_message_id, c_error) \<Rightarrow>
             if c_error \<noteq> ERR_FRIEND_SEND_MESSAGE H TOX_ERR_FRIEND_SEND_MESSAGE_OK
             then (0, throw_ERR_FRIEND_SEND_MESSAGE H c_error)
             else (c_message_id, None))"

text \<open>FriendSendLosslessPacket (lines 751 to 781).\<close>

definition FriendSendLosslessPacket :: "tox_h \<Rightarrow> engine \<Rightarrow> 'r Tox \<Rightarrow> 32 word \<Rightarrow> slice \<Rightarrow> error option" where
  "FriendSendLosslessPacket H E tox friendNumber data =
     (let c_length = len data;
          c_data = first_elem c_length data
      in throw_ERR_FRIEND_CUSTOM_PACKET H
           (tox_friend_send_lossless_packet E (handle tox) friendNumber c_data c_length))"

section \<open>Networking (tox.go)\<close>

text \<open>
  \<^verbatim>\<open>hex.DecodeString\<close> of the Go library, as Bootstrap uses it: the decoded bytes, or the
  error. Digits, \<^verbatim>\<open>a\<close> to \<^verbatim>\<open>f\<close> and \<^verbatim>\<open>A\<close> to \<^verbatim>\<open>F\<close> are the hexadecimal
  characters; a string of odd length or with any other character has an error.
\<close>

definition fromHexChar :: "char \<Rightarrow> byte option" where
  "fromHexChar c =
     (let n = (of_char c :: nat) in
      if 48 \<le> n \<and> n \<le> 57 then Some (of_nat (n - 48))
      else if 97 \<le> n \<and> n \<le> 102 then Some (of_nat (n - 97 + 10))
      else if 65 \<le> n \<and> n \<le> 70 then Some (of_nat (n - 65 + 10))
      else None)"

fun hex_DecodeString :: "string \<Rightarrow> hex_error + byte list" where
  "hex_DecodeString [] = Inr []"
| "hex_DecodeString [p] =
     (case fromHexChar p of None \<Rightarrow> Inl (InvalidByteError p) | Some a \<Rightarrow> Inl ErrLength)"
| "hex_DecodeString (p # q # src) =
     (case fromHexChar p of
        None \<Rightarrow> Inl (InvalidByteError p)
      | Some a \<Rightarrow>
          (case fromHexChar q of
             None \<Rightarrow> Inl (InvalidByteError q)
           | Some b \<Rightarrow>
               (case hex_DecodeString src of
                  Inl err \<Rightarrow> Inl err
                | Inr dst \<Rightarrow> Inr ((push_bit 4 a OR b) # dst))))"

text \<open>
  What a Go function does: it returns, or it panics with a message (a panic that nothing
  recovers ends the process).
\<close>

datatype 'a outcome = Returns 'a | Panics string

text \<open>
  Bootstrap (lines 809 to 836). The deferred \<^verbatim>\<open>C.free\<close> of the host string runs on every
  way out. \<^verbatim>\<open>&publicKey[0]\<close> panics on an empty slice, which passes the length check only
  under a header whose key size is 0.
\<close>

definition Bootstrap :: "tox_h \<Rightarrow> engine \<Rightarrow> 'r Tox \<Rightarrow> SeedNode \<Rightarrow> c_world
    \<Rightarrow> error option outcome \<times> c_world" where
  "Bootstrap H E tox seedNode w =
     (case C_CString (Host seedNode) w of
        (c_host, w1) \<Rightarrow>
          (case hex_DecodeString (PublicKey seedNode) of
             Inl err \<Rightarrow> (Returns (Some (hex_Error err)), C_free (Some c_host) w1)
           | Inr publicKey \<Rightarrow>
               if length publicKey \<noteq> PUBLIC_KEY_SIZE H
               then (Returns (Some (errors_New ''invalid public key'')), C_free (Some c_host) w1)
               else if publicKey = []
               then (Panics ''index out of range'', C_free (Some c_host) w1)
               else
                 (let c_error = tox_bootstrap E (handle tox) w1 c_host (Port seedNode) publicKey;
                      w2 = w1\<lparr>calls := calls w1 @
                             [Call_tox_bootstrap (handle tox) c_host (Port seedNode) publicKey]\<rparr>
                  in (Returns (throw_ERR_BOOTSTRAP H c_error), C_free (Some c_host) w2))))"

section \<open>Registration of handlers (tox.go, callbacks.h)\<close>

text \<open>
  \<^verbatim>\<open>GEN_CALLBACK_API(x)\<close> of callbacks.h makes \<^verbatim>\<open>register_x(tox, t)\<close>, which calls
  \<^verbatim>\<open>tox_callback_x(tox, callback_x, t)\<close>: the engine is given the trampoline of the kind.
\<close>

definition register :: "event_kind \<Rightarrow> nat \<Rightarrow> c_world \<Rightarrow> c_world" where
  "register x c_tox w = w\<lparr>calls := calls w @ [Call_tox_callback x c_tox]\<rparr>"

text \<open>
  The eight registration functions (lines 218 to 270): each stores the callback it is
  given, which may be \<^verbatim>\<open>nil\<close>, in the slot of its kind and registers the trampoline.
\<close>

definition SetOnSelfConnectionStatus :: "(int \<Rightarrow> 'r) option \<Rightarrow> 'r Tox \<Rightarrow> c_world \<Rightarrow> 'r Tox \<times> c_world" where
  "SetOnSelfConnectionStatus callback tox w =
     (tox\<lparr>onSelfConnectionStatus := callback\<rparr>, register self_connection_status (handle tox) w)"

definition SetOnFriendRequest :: "(byte list \<Rightarrow> slice \<Rightarrow> 'r) option \<Rightarrow> 'r Tox \<Rightarrow> c_world \<Rightarrow> 'r Tox \<times> c_world" where
  "SetOnFriendRequest callback tox w =
     (tox\<lparr>onFriendRequest := callback\<rparr>, register friend_request (handle tox) w)"

definition SetOnFriendName :: "(32 word \<Rightarrow> slice \<Rightarrow> 'r) option \<Rightarrow> 'r Tox \<Rightarrow> c_world \<Rightarrow> 'r Tox \<times> c_world" where
  "SetOnFriendName callback tox w =
     (tox\<lparr>onFriendName := callback\<rparr>, register friend_name (handle tox) w)"

definition SetOnFriendStatus :: "(32 word \<Rightarrow> int \<Rightarrow> 'r) option \<Rightarrow> 'r Tox \<Rightarrow> c_world \<Rightarrow> 'r Tox \<times> c_world" where
  "SetOnFriendStatus callback tox w =
     (tox\<lparr>onFriendStatus := callback\<rparr>, register friend_status (handle tox) w)"

definition SetOnFriendStatusMessage :: "(32 word \<Rightarrow> slice \<Rightarrow> 'r) option \<Rightarrow> 'r Tox \<Rightarrow> c_world \<Rightarrow> 'r Tox \<times> c_world" where
  "SetOnFriendStatusMessage callback tox w =
     (tox\<lparr>onFriendStatusMessage := callback\<rparr>, register friend_status_message (handle tox) w)"

definition SetOnFriendConnectionStatus :: "(32 word \<Rightarrow> int \<Rightarrow> 'r) option \<Rightarrow> 'r Tox \<Rightarrow> c_world \<Rightarrow> 'r Tox \<times> c_world" where
  "SetOnFriendConnectionStatus callback tox w =
     (tox\<lparr>onFriendConnectionStatus := callback\<rparr>, register friend_connection_status (handle tox) w)"

definition SetOnFriendMessage :: "(32 word \<Rightarrow> int \<Rightarrow> slice \<Rightarrow> 'r) option \<Rightarrow> 'r Tox \<Rightarrow> c_world \<Rightarrow> 'r Tox \<times> c_world" where
  "SetOnFriendMessage callback tox w =
     (tox\<lparr>onFriendMessage := callback\<rparr>, register friend_message (handle tox) w)"

definition SetOnFriendLosslessPacket :: "(32 word \<Rightarrow> slice \<Rightarrow> 'r) option \<Rightarrow> 'r Tox \<Rightarrow> c_world \<Rightarrow> 'r Tox \<times> c_world" where
  "SetOnFriendLosslessPacket callback tox w =
     (tox\<lparr>onFriendLosslessPacket := callback\<rparr>, register friend_lossless_packet (handle tox) w)"

section \<open>Callback trampolines (callbacks.go)\<close>

text \<open>
  A trampoline is called by the engine with the instance as user data. It decodes its
  arguments and calls the handler in the slot of its kind; the result is what the handler
  does, or a panic. A call through a \<^verbatim>\<open>nil\<close> handler is a panic of the Go runtime.
  A buffer argument is the engine's memory from the pointer on, by offset, of which
  \<^verbatim>\<open>memcpy\<close> copies the first \<^verbatim>\<open>c_length\<close> bytes.
\<close>

definition call :: "'f option \<Rightarrow> ('f \<Rightarrow> 'r) \<Rightarrow> 'r outcome" where
  "call handler args =
     (case handler of
        None \<Rightarrow> Panics ''invalid memory address or nil pointer dereference''
      | Some f \<Rightarrow> Returns (args f))"

definition copied :: "(nat \<Rightarrow> byte) \<Rightarrow> nat \<Rightarrow> slice" where
  "copied c_x c_length =
     (if c_length > 0 then Some (map c_x [0..<c_length]) else make_slice c_length)"

text \<open>callback_self_connection_status (lines 27 to 45).\<close>

definition callback_self_connection_status :: "tox_h \<Rightarrow> 'r Tox \<Rightarrow> int \<Rightarrow> 'r outcome" where
  "callback_self_connection_status H tox c_connection_status =
     (if c_connection_status = CONNECTION H TOX_CONNECTION_NONE
      then call (onSelfConnectionStatus tox) (\<lambda>f. f ToxConnectionNone)
      else if c_connection_status = CONNECTION H TOX_CONNECTION_TCP
      then call (onSelfConnectionStatus tox) (\<lambda>f. f ToxConnectionTCP)
      else if c_connection_status = CONNECTION H TOX_CONNECTION_UDP
      then call (onSelfConnectionStatus tox) (\<lambda>f. f ToxConnectionUDP)
      else Panics ''unknown connection status'')"

text \<open>callback_friend_name (lines 48 to 66).\<close>

definition callback_friend_name :: "'r Tox \<Rightarrow> 32 word \<Rightarrow> (nat \<Rightarrow> byte) \<Rightarrow> nat \<Rightarrow> 'r outcome" where
  "callback_friend_name tox c_friend_number c_name c_length =
     call (onFriendName tox) (\<lambda>f. f c_friend_number (copied c_name c_length))"

text \<open>callback_friend_request (lines 69 to 92).\<close>

definition callback_friend_request :: "tox_h \<Rightarrow> 'r Tox \<Rightarrow> (nat \<Rightarrow> byte) \<Rightarrow> (nat \<Rightarrow> byte) \<Rightarrow> nat
    \<Rightarrow> 'r outcome" where
  "callback_friend_request H tox c_public_key c_message c_length =
     call (onFriendRequest tox)
       (\<lambda>f. f (map c_public_key [0..<PUBLIC_KEY_SIZE H]) (copied c_message c_length))"

text \<open>callback_friend_status_message (lines 95 to 113).\<close>

definition callback_friend_status_message :: "'r Tox \<Rightarrow> 32 word \<Rightarrow> (nat \<Rightarrow> byte) \<Rightarrow> nat
    \<Rightarrow> 'r outcome" where
  "callback_friend_status_message tox c_friend_number c_message c_length =
     call (onFriendStatusMessage tox) (\<lambda>f. f c_friend_number (copied c_message c_length))"

text \<open>callback_friend_status (lines 116 to 136).\<close>

definition callback_friend_status :: "tox_h \<Rightarrow> 'r Tox \<Rightarrow> 32 word \<Rightarrow> int \<Rightarrow> 'r outcome" where
  "callback_friend_status H tox c_friend_number c_user_status =
     (if c_user_status = USER_STATUS H TOX_USER_STATUS_NONE
      then call (onFriendStatus tox) (\<lambda>f. f c_friend_number ToxUserStatusNone)
      else if c_user_status = USER_STATUS H TOX_USER_STATUS_AWAY
      then call (onFriendStatus tox) (\<lambda>f. f c_friend_number ToxUserStatusAway)
      else if c_user_status = USER_STATUS H TOX_USER_STATUS_BUSY
      then call (onFriendStatus tox) (\<lambda>f. f c_friend_number ToxUserStatusBusy)
      else Panics ''unknown user status'')"

text \<open>callback_friend_connection_status (lines 139 to 159).\<close>

definition callback_friend_connection_status :: "tox_h \<Rightarrow> 'r Tox \<Rightarrow> 32 word \<Rightarrow> int \<Rightarrow> 'r outcome" where
  "callback_friend_connection_status H tox c_friend_number c_connection_status =
     (if c_connection_status = CONNECTION H TOX_CONNECTION_NONE
      then call (onFriendConnectionStatus tox) (\<lambda>f. f c_friend_number ToxConnectionNone)
      else if c_connection_status = CONNECTION H TOX_CONNECTION_TCP
      then call (onFriendConnectionStatus tox) (\<lambda>f. f c_friend_number ToxConnectionTCP)
      else if c_connection_status = CONNECTION H TOX_CONNECTION_UDP
      then call (onFriendConnectionStatus tox) (\<lambda>f. f c_friend_number ToxConnectionUDP)
      else Panics ''unknown connection status'')"

text \<open>callback_friend_message (lines 162 to 190).\<close>

definition callback_friend_message :: "tox_h \<Rightarrow> 'r Tox \<Rightarrow> 32 word \<Rightarrow> int \<Rightarrow> (nat \<Rightarrow> byte) \<Rightarrow> nat
    \<Rightarrow> 'r outcome" where
  "callback_friend_message H tox c_friend_number c_message_type c_message c_length =
     (if c_message_type = MESSAGE_TYPE H TOX_MESSAGE_TYPE_NORMAL
      then call (onFriendMessage tox)
             (\<lambda>f. f c_friend_number ToxMessageTypeNormal (copied c_message c_length))
      else if c_message_type = MESSAGE_TYPE H TOX_MESSAGE_TYPE_ACTION
      then call (onFriendMessage tox)
             (\<lambda>f. f c_friend_number ToxMessageTypeAction (copied c_message c_length))
      else Panics ''unknown message type'')"

text \<open>callback_friend_lossless_packet (lines 193 to 211).\<close>

definition callback_friend_lossless_packet :: "'r Tox \<Rightarrow> 32 word \<Rightarrow> (nat \<Rightarrow> byte) \<Rightarrow> nat
    \<Rightarrow> 'r outcome" where
  "callback_friend_lossless_packet tox c_friend_number c_data c_length =
     call (onFriendLosslessPacket tox) (\<lambda>f. f c_friend_number (copied c_data c_length))"

section \<open>Concrete inputs\<close>

text \<open>
  A header to evaluate the operations with: every enumeration numbered from 0 in the
  order of its declaration, as C numbers enumerators without initialisers, and public keys
  of 32 bytes.
\<close>

definition enum_ERR_NEW :: "TOX_ERR_NEW \<Rightarrow> int" where
  "enum_ERR_NEW e =
     (case e of
        TOX_ERR_NEW_OK \<Rightarrow> 0
      | TOX_ERR_NEW_NULL \<Rightarrow> 1
      | TOX_ERR_NEW_MALLOC \<Rightarrow> 2
      | TOX_ERR_NEW_PORT_ALLOC \<Rightarrow> 3
      | TOX_ERR_NEW_PROXY_BAD_TYPE \<Rightarrow> 4
      | TOX_ERR_NEW_PROXY_BAD_HOST \<Rightarrow> 5
      | TOX_ERR_NEW_PROXY_BAD_PORT \<Rightarrow> 6
      | TOX_ERR_NEW_PROXY_NOT_FOUND \<Rightarrow> 7
      | TOX_ERR_NEW_LOAD_ENCRYPTED \<Rightarrow> 8
      | TOX_ERR_NEW_LOAD_BAD_FORMAT \<Rightarrow> 9)"

definition enum_ERR_BOOTSTRAP :: "TOX_ERR_BOOTSTRAP \<Rightarrow> int" where
  "enum_ERR_BOOTSTRAP e =
     (case e of
        TOX_ERR_BOOTSTRAP_OK \<Rightarrow> 0
      | TOX_ERR_BOOTSTRAP_NULL \<Rightarrow> 1
      | TOX_ERR_BOOTSTRAP_BAD_HOST \<Rightarrow> 2
      | TOX_ERR_BOOTSTRAP_BAD_PORT \<Rightarrow> 3)"

definition enum_ERR_SET_INFO :: "TOX_ERR_SET_INFO \<Rightarrow> int" where
  "enum_ERR_SET_INFO e =
     (case e of
        TOX_ERR_SET_INFO_OK \<Rightarrow> 0
      | TOX_ERR_SET_INFO_NULL \<Rightarrow> 1
      | TOX_ERR_SET_INFO_TOO_LONG \<Rightarrow> 2)"

definition enum_ERR_FRIEND_ADD :: "TOX_ERR_FRIEND_ADD \<Rightarrow> int" where
  "enum_ERR_FRIEND_ADD e =
     (case e of
        TOX_ERR_FRIEND_ADD_OK \<Rightarrow> 0
      | TOX_ERR_FRIEND_ADD_NULL \<Rightarrow> 1
      | TOX_ERR_FRIEND_ADD_TOO_LONG \<Rightarrow> 2
      | TOX_ERR_FRIEND_ADD_NO_MESSAGE \<Rightarrow> 3
      | TOX_ERR_FRIEND_ADD_OWN_KEY \<Rightarrow> 4
      | TOX_ERR_FRIEND_ADD_ALREADY_SENT \<Rightarrow> 5
      | TOX_ERR_FRIEND_ADD_BAD_CHECKSUM \<Rightarrow> 6
      | TOX_ERR_FRIEND_ADD_SET_NEW_NOSPAM \<Rightarrow> 7
      | TOX_ERR_FRIEND_ADD_MALLOC \<Rightarrow> 8)"

definition enum_ERR_FRIEND_DELETE :: "TOX_ERR_FRIEND_DELETE \<Rightarrow> int" where
  "enum_ERR_FRIEND_DELETE e =
     (case e of
        TOX_ERR_FRIEND_DELETE_OK \<Rightarrow> 0
      | TOX_ERR_FRIEND_DELETE_FRIEND_NOT_FOUND \<Rightarrow> 1)"

definition enum_ERR_FRIEND_QUERY :: "TOX_ERR_FRIEND_QUERY \<Rightarrow> int" where
  "enum_ERR_FRIEND_QUERY e =
     (case e of
        TOX_ERR_FRIEND_QUERY_OK \<Rightarrow> 0
      | TOX_ERR_FRIEND_QUERY_NULL \<Rightarrow> 1
      | TOX_ERR_FRIEND_QUERY_FRIEND_NOT_FOUND \<Rightarrow> 2)"

definition enum_ERR_FRIEND_GET_PUBLIC_KEY :: "TOX_ERR_FRIEND_GET_PUBLIC_KEY \<Rightarrow> int" where
  "enum_ERR_FRIEND_GET_PUBLIC_KEY e =
     (case e of
        TOX_ERR_FRIEND_GET_PUBLIC_KEY_OK \<Rightarrow> 0
      | TOX_ERR_FRIEND_GET_PUBLIC_KEY_FRIEND_NOT_FOUND \<Rightarrow> 1)"

definition enum_ERR_FRIEND_BY_PUBLIC_KEY :: "TOX_ERR_FRIEND_BY_PUBLIC_KEY \<Rightarrow> int" where
  "enum_ERR_FRIEND_BY_PUBLIC_KEY e =
     (case e of
        TOX_ERR_FRIEND_BY_PUBLIC_KEY_OK \<Rightarrow> 0
      | TOX_ERR_FRIEND_BY_PUBLIC_KEY_NULL \<Rightarrow> 1
      | TOX_ERR_FRIEND_BY_PUBLIC_KEY_NOT_FOUND \<Rightarrow> 2)"

definition enum_ERR_FRIEND_GET_LAST_ONLINE :: "TOX_ERR_FRIEND_GET_LAST_ONLINE \<Rightarrow> int" where
  "enum_ERR_FRIEND_GET_LAST_ONLINE e =
     (case e of
        TOX_ERR_FRIEND_GET_LAST_ONLINE_OK \<Rightarrow> 0
      | TOX_ERR_FRIEND_GET_LAST_ONLINE_FRIEND_NOT_FOUND \<Rightarrow> 1)"

definition enum_ERR_FRIEND_SEND_MESSAGE :: "TOX_ERR_FRIEND_SEND_MESSAGE \<Rightarrow> int" where
  "enum_ERR_FRIEND_SEND_MESSAGE e =
     (case e of
        TOX_ERR_FRIEND_SEND_MESSAGE_OK \<Rightarrow> 0
      | TOX_ERR_FRIEND_SEND_MESSAGE_NULL \<Rightarrow> 1
      | TOX_ERR_FRIEND_SEND_MESSAGE_FRIEND_NOT_FOUND \<Rightarrow> 2
      | TOX_ERR_FRIEND_SEND_MESSAGE_FRIEND_NOT_CONNECTED \<Rightarrow> 3
      | TOX_ERR_FRIEND_SEND_MESSAGE_SENDQ \<Rightarrow> 4
      | TOX_ERR_FRIEND_SEND_MESSAGE_TOO_LONG \<Rightarrow> 5
      | TOX_ERR_FRIEND_SEND_MESSAGE_EMPTY \<Rightarrow> 6)"

definition enum_ERR_FRIEND_CUSTOM_PACKET :: "TOX_ERR_FRIEND_CUSTOM_PACKET \<Rightarrow> int" where
  "enum_ERR_FRIEND_CUSTOM_PACKET e =
     (case e of
        TOX_ERR_FRIEND_CUSTOM_PACKET_OK \<Rightarrow> 0
      | TOX_ERR_FRIEND_CUSTOM_PACKET_NULL \<Rightarrow> 1
      | TOX_ERR_FRIEND_CUSTOM_PACKET_FRIEND_NOT_FOUND \<Rightarrow> 2
      | TOX_ERR_FRIEND_CUSTOM_PACKET_FRIEND_NOT_CONNECTED \<Rightarrow> 3
      | TOX_ERR_FRIEND_CUSTOM_PACKET_INVALID \<Rightarrow> 4
      | TOX_ERR_FRIEND_CUSTOM_PACKET_EMPTY \<Rightarrow> 5
      | TOX_ERR_FRIEND_CUSTOM_PACKET_TOO_LONG \<Rightarrow> 6
      | TOX_ERR_FRIEND_CUSTOM_PACKET_SENDQ \<Rightarrow> 7)"

definition enum_CONNECTION :: "TOX_CONNECTION \<Rightarrow> int" where
  "enum_CONNECTION e =
     (case e of
        TOX_CONNECTION_NONE \<Rightarrow> 0
      | TOX_CONNECTION_TCP \<Rightarrow> 1
      | TOX_CONNECTION_UDP \<Rightarrow> 2)"

definition enum_USER_STATUS :: "TOX_USER_STATUS \<Rightarrow> int" where
  "enum_USER_STATUS e =
     (case e of
        TOX_USER_STATUS_NONE \<Rightarrow> 0
      | TOX_USER_STATUS_AWAY \<Rightarrow> 1
      | TOX_USER_STATUS_BUSY \<Rightarrow> 2)"

definition enum_MESSAGE_TYPE :: "TOX_MESSAGE_TYPE \<Rightarrow> int" where
  "enum_MESSAGE_TYPE e =
     (case e of
        TOX_MESSAGE_TYPE_NORMAL \<Rightarrow> 0
      | TOX_MESSAGE_TYPE_ACTION \<Rightarrow> 1)"

definition enum_PROXY_TYPE :: "TOX_PROXY_TYPE \<Rightarrow> int" where
  "enum_PROXY_TYPE e =
     (case e of
        TOX_PROXY_TYPE_NONE \<Rightarrow> 0
      | TOX_PROXY_TYPE_HTTP \<Rightarrow> 1
      | TOX_PROXY_TYPE_SOCKS5 \<Rightarrow> 2)"

definition enum_SAVEDATA_TYPE :: "TOX_SAVEDATA_TYPE \<Rightarrow> int" where
  "enum_SAVEDATA_TYPE e =
     (case e of
        TOX_SAVEDATA_TYPE_NONE \<Rightarrow> 0
      | TOX_SAVEDATA_TYPE_TOX_SAVE \<Rightarrow> 1)"

definition toxcore_h :: tox_h where
  "toxcore_h =
     \<lparr>ERR_NEW = enum_ERR_NEW,
      ERR_BOOTSTRAP = enum_ERR_BOOTSTRAP,
      ERR_SET_INFO = enum_ERR_SET_INFO,
      ERR_FRIEND_ADD = enum_ERR_FRIEND_ADD,
      ERR_FRIEND_DELETE = enum_ERR_FRIEND_DELETE,
      ERR_FRIEND_QUERY = enum_ERR_FRIEND_QUERY,
      ERR_FRIEND_GET_PUBLIC_KEY = enum_ERR_FRIEND_GET_PUBLIC_KEY,
      ERR_FRIEND_BY_PUBLIC_KEY = enum_ERR_FRIEND_BY_PUBLIC_KEY,
      ERR_FRIEND_GET_LAST_ONLINE = enum_ERR_FRIEND_GET_LAST_ONLINE,
      ERR_FRIEND_SEND_MESSAGE = enum_ERR_FRIEND_SEND_MESSAGE,
      ERR_FRIEND_CUSTOM_PACKET = enum_ERR_FRIEND_CUSTOM_PACKET,
      CONNECTION = enum_CONNECTION,
      USER_STATUS = enum_USER_STATUS,
      MESSAGE_TYPE = enum_MESSAGE_TYPE,
      PROXY_TYPE = enum_PROXY_TYPE,
      SAVEDATA_TYPE = enum_SAVEDATA_TYPE,
      PUBLIC_KEY_SIZE = 32\<rparr>"

text \<open>An empty C side: no block, nothing freed, no engine call yet.\<close>

definition w0 :: c_world where
  "w0 = \<lparr>blocks = (\<lambda>a. None), brk = 1, freed = [], calls = []\<rparr>"

text \<open>
  An engine that cannot bind a port, holds no save data, an empty name and status message,
  and knows no friend: creation fails with \<^verbatim>\<open>TOX_ERR_NEW_PORT_ALLOC\<close>, every friend
  operation with the \<^verbatim>\<open>FRIEND_NOT_FOUND\<close> code of its family.
\<close>

definition no_friends :: engine where
  "no_friends =
     \<lparr>tox_new = (\<lambda>c_options w. (0, 3)),
      tox_get_savedata_size = (\<lambda>t. 0),
      tox_get_savedata = (\<lambda>t. []),
      tox_self_get_name_size = (\<lambda>t. 0),
      tox_self_get_name = (\<lambda>t c_name. []),
      tox_self_set_name = (\<lambda>t c_name c_length. 0),
      tox_self_get_status_message_size = (\<lambda>t. 0),
      tox_self_get_status_message = (\<lambda>t c_message. []),
      tox_self_set_status_message = (\<lambda>t c_message c_length. 0),
      tox_friend_add = (\<lambda>t address c_message c_length. (0, 6)),
      tox_friend_add_norequest = (\<lambda>t public_key. (0, 6)),
      tox_friend_delete = (\<lambda>t n. 1),
      tox_friend_get_name_size = (\<lambda>t n. (0, 2)),
      tox_friend_get_name = (\<lambda>t n c_name. ([], 2)),
      tox_friend_get_public_key = (\<lambda>t n. ([], 1)),
      tox_friend_by_public_key = (\<lambda>t public_key. (0, 2)),
      tox_friend_get_status = (\<lambda>t n. (0, 2)),
      tox_friend_get_status_message_size = (\<lambda>t n. (0, 2)),
      tox_friend_get_status_message = (\<lambda>t n c_message. ([], 2)),
      tox_friend_get_connection_status = (\<lambda>t n. (0, 2)),
      tox_friend_get_last_online = (\<lambda>t n. (0, 1)),
      tox_friend_send_message = (\<lambda>t n c_message_type c_message c_length. (0, 2)),
      tox_friend_send_lossless_packet = (\<lambda>t n c_data c_length. 2),
      tox_bootstrap = (\<lambda>t w c_host c_port c_public_key. 0)\<rparr>"

text \<open>
  An instance whose handlers give back the enumerated value they are called with (0 for
  the handlers of events that have none).
\<close>

definition echo_tox :: "int Tox" where
  "echo_tox =
     \<lparr>handle = 1, lock = False,
      onSelfConnectionStatus = Some (\<lambda>connectionStatus. connectionStatus),
      onFriendRequest = Some (\<lambda>publicKey message. 0),
      onFriendName = Some (\<lambda>friendNumber name. 0),
      onFriendStatus = Some (\<lambda>friendNumber status. status),
      onFriendStatusMessage = Some (\<lambda>friendNumber message. 0),
      onFriendConnectionStatus = Some (\<lambda>friendNumber connectionStatus. connectionStatus),
      onFriendMessage = Some (\<lambda>friendNumber messageType message. messageType),
      onFriendLosslessPacket = Some (\<lambda>friendNumber data. 0),
      userData = None\<rparr>"

text \<open>
  Two configurations without a proxy: one with a host name and three bytes of save data,
  one whose host string holds a NUL byte and that has no save data.
\<close>

definition saved_options :: ToxOptions where
  "saved_options =
     \<lparr>IPv6Enabled = True, UDPEnabled = False, ProxyType = 0, ProxyHost = ''tor'',
      ProxyPort = 9050, StartPort = 33445, EndPort = 33545, TCPPort = 0,
      SaveData = Some [1, 2, 3]\<rparr>"

definition nul_host_options :: ToxOptions where
  "nul_host_options =
     \<lparr>IPv6Enabled = True, UDPEnabled = True, ProxyType = 0,
      ProxyHost = [CHR ''a'', CHR 0x00, CHR ''b''],
      ProxyPort = 0, StartPort = 0, EndPort = 0, TCPPort = 0,
      SaveData = None\<rparr>"

text \<open>A seed node whose key is no hexadecimal string, and one whose key is too short.\<close>

definition no_hex_node :: SeedNode where
  "no_hex_node = \<lparr>Host = ''node.example'', Port = 33445, PublicKey = ''A0G1''\<rparr>"

definition short_key_node :: SeedNode where
  "short_key_node = \<lparr>Host = ''node.example'', Port = 33445, PublicKey = ''A091''\<rparr>"

text \<open>
  An engine that loses its friend between the size query and the fetch: the size queries
  succeed with 3 bytes, the fetches fail.
\<close>

definition lost_friend :: engine where
  "lost_friend =
     no_friends\<lparr>tox_friend_get_name_size := (\<lambda>t n. (3, 0)),
                tox_friend_get_status_message_size := (\<lambda>t n. (3, 0))\<rparr>"

text \<open>An engine that takes every message and gives its type back as the message id.\<close>

definition type_echo :: engine where
  "type_echo =
     no_friends\<lparr>tox_friend_send_message :=
                  (\<lambda>t n c_message_type c_message c_length. (word_of_int c_message_type, 0))\<rparr>"

section \<open>Memory and strings\<close>

lemma char_of_byte_of_char: "char_of_byte (byte_of_char c) = c"
  by (simp add: char_of_byte_def byte_of_char_def unat_of_nat)

lemma byte_of_char_NUL: "byte_of_char c = 0 \<longleftrightarrow> c = CHR 0x00"
proof
  assume "byte_of_char c = 0"
  then have "char_of_byte (byte_of_char c) = char_of_byte 0" by (rule arg_cong)
  then have "c = char_of_byte 0" unfolding char_of_byte_of_char .
  then show "c = CHR 0x00" by (simp add: char_of_byte_def char_of_eq_iff)
next
  assume "c = CHR 0x00"
  then show "byte_of_char c = 0" by (simp add: byte_of_char_def)
qed

lemma GoString_of_CString:
  "map char_of_byte (takeWhile (\<lambda>b. b \<noteq> 0) (map byte_of_char s @ [0]))
     = takeWhile (\<lambda>c. c \<noteq> CHR 0x00) s"
  by (induction s) (simp_all add: byte_of_char_NUL char_of_byte_of_char)

lemma slice2array_loop_copies:
  "i \<le> sz \<Longrightarrow> length sl = sz \<Longrightarrow> length array = sz \<Longrightarrow> take i array = take i sl
     \<Longrightarrow> slice2array_loop i sz sl array = sl"
proof (induction i sz sl array rule: slice2array_loop.induct)
  case (1 i sz sl array)
  show ?case
  proof (cases "i < sz")
    case True
    have "take (i + 1) (array[i := sl ! i]) = take (i + 1) sl"
      using 1 True by (simp add: take_Suc_conv_app_nth)
    with 1 True show ?thesis by (subst slice2array_loop.simps) simp
  next
    case False
    with 1 show ?thesis by (subst slice2array_loop.simps) simp
  qed
qed

lemma array2slice_loop_copies:
  "i \<le> sz \<Longrightarrow> sz \<le> length array \<Longrightarrow> length sl = sz \<Longrightarrow> take i sl = take i array
     \<Longrightarrow> array2slice_loop i sz array sl = take sz array"
proof (induction i sz array sl rule: array2slice_loop.induct)
  case (1 i sz array sl)
  show ?case
  proof (cases "i < sz")
    case True
    have "take (i + 1) (sl[i := array ! i]) = take (i + 1) array"
      using 1 True by (simp add: take_Suc_conv_app_nth)
    with 1 True show ?thesis by (subst array2slice_loop.simps) simp
  next
    case False
    with 1 show ?thesis by (subst array2slice_loop.simps) simp
  qed
qed

lemma slice2array_loop_all: "slice2array_loop 0 (length sl) sl (replicate (length sl) 0) = sl"
  by (rule slice2array_loop_copies) simp_all

lemma array2slice_loop_all:
  "sz \<le> length array \<Longrightarrow> array2slice_loop 0 sz array (replicate sz 0) = take sz array"
  by (rule array2slice_loop_copies) simp_all

lemma len_elems: "len s = length (elems s)"
  by (simp add: len_def elems_def split: option.splits)

lemma slice2array_block:
  "slice2array s w = (brk w, w\<lparr>blocks := (blocks w)(brk w \<mapsto> elems s), brk := Suc (brk w)\<rparr>)"
  by (simp add: slice2array_def C_malloc_def Let_def len_elems slice2array_loop_all)

lemma CString_block:
  "C_CString s w =
     (brk w, w\<lparr>blocks := (blocks w)(brk w \<mapsto> map byte_of_char s @ [0]), brk := Suc (brk w)\<rparr>)"
  by (simp add: C_CString_def C_malloc_def)

lemma array2slice_block:
  "blocks w a = Some bs \<Longrightarrow> sz \<le> length bs \<Longrightarrow>
     array2slice w (Some a) sz = Some (Some (take sz bs))"
  by (simp add: array2slice_def make_slice_def array2slice_loop_all)

lemma COptions_known:
  assumes "ProxyType C \<in> {ToxProxyTypeNone, ToxProxyTypeHttp, ToxProxyTypeSocks5}"
  shows "COptions H C w =
         (Inr \<lparr>ipv6_enabled = IPv6Enabled C, udp_enabled = UDPEnabled C,
               proxy_type =
                 (if ProxyType C = ToxProxyTypeNone then PROXY_TYPE H TOX_PROXY_TYPE_NONE
                  else if ProxyType C = ToxProxyTypeHttp then PROXY_TYPE H TOX_PROXY_TYPE_HTTP
                  else PROXY_TYPE H TOX_PROXY_TYPE_SOCKS5),
               proxy_host = Some (brk w), proxy_port = ProxyPort C,
               start_port = StartPort C, end_port = EndPort C, tcp_port = TCPPort C,
               savedata_type =
                 (if len (SaveData C) = 0 then SAVEDATA_TYPE H TOX_SAVEDATA_TYPE_NONE
                  else SAVEDATA_TYPE H TOX_SAVEDATA_TYPE_TOX_SAVE),
               savedata_data = Some (Suc (brk w)), savedata_length = len (SaveData C)\<rparr>,
          w\<lparr>blocks := (blocks w)(brk w \<mapsto> map byte_of_char (ProxyHost C) @ [0],
                                   Suc (brk w) \<mapsto> elems (SaveData C)),
            brk := Suc (Suc (brk w))\<rparr>)"
  using assms
  by (auto simp: COptions_def CString_block slice2array_block Let_def)

lemma COptions_unknown:
  assumes "ProxyType C \<notin> {ToxProxyTypeNone, ToxProxyTypeHttp, ToxProxyTypeSocks5}"
  shows "COptions H C w = (Inl (errors_New ''unknown proxy type''), w)"
  using assms by (simp add: COptions_def)

lemma COptions_Inr_known:
  "COptions H C w = (Inr c, w') \<Longrightarrow>
     ProxyType C \<in> {ToxProxyTypeNone, ToxProxyTypeHttp, ToxProxyTypeSocks5}"
  by (rule ccontr) (simp add: COptions_unknown)

lemma GoString_CString_block:
  "blocks w a = Some (map byte_of_char s @ [0]) \<Longrightarrow>
     C_GoString w (Some a) = Some (takeWhile (\<lambda>c. c \<noteq> CHR 0x00) s)"
  by (simp add: C_GoString_def GoString_of_CString)


section \<open>Unknown result codes\<close>

lemma throw_ERR_NEW_unknown:
  "c \<notin> range (ERR_NEW H) \<Longrightarrow> throw_ERR_NEW H c = Some ToxErrUnknown"
  by (auto simp: throw_ERR_NEW_def)

lemma toxcore_h_ERR_NEW_99: "99 \<notin> range (ERR_NEW toxcore_h)"
  by (auto simp: toxcore_h_def enum_ERR_NEW_def split: TOX_ERR_NEW.splits)

lemma throw_ERR_BOOTSTRAP_unknown:
  "c \<notin> range (ERR_BOOTSTRAP H) \<Longrightarrow> throw_ERR_BOOTSTRAP H c = Some ToxErrUnknown"
  by (auto simp: throw_ERR_BOOTSTRAP_def)

lemma toxcore_h_ERR_BOOTSTRAP_99: "99 \<notin> range (ERR_BOOTSTRAP toxcore_h)"
  by (auto simp: toxcore_h_def enum_ERR_BOOTSTRAP_def split: TOX_ERR_BOOTSTRAP.splits)

lemma throw_ERR_SET_INFO_unknown:
  "c \<notin> range (ERR_SET_INFO H) \<Longrightarrow> throw_ERR_SET_INFO H c = Some ToxErrUnknown"
  by (auto simp: throw_ERR_SET_INFO_def)

lemma toxcore_h_ERR_SET_INFO_99: "99 \<notin> range (ERR_SET_INFO toxcore_h)"
  by (auto simp: toxcore_h_def enum_ERR_SET_INFO_def split: TOX_ERR_SET_INFO.splits)

lemma throw_ERR_FRIEND_ADD_unknown:
  "c \<notin> range (ERR_FRIEND_ADD H) \<Longrightarrow> throw_ERR_FRIEND_ADD H c = Some ToxErrUnknown"
  by (auto simp: throw_ERR_FRIEND_ADD_def)

lemma toxcore_h_ERR_FRIEND_ADD_99: "99 \<notin> range (ERR_FRIEND_ADD toxcore_h)"
  by (auto simp: toxcore_h_def enum_ERR_FRIEND_ADD_def split: TOX_ERR_FRIEND_ADD.splits)

lemma throw_ERR_FRIEND_DELETE_unknown:
  "c \<notin> range (ERR_FRIEND_DELETE H) \<Longrightarrow> throw_ERR_FRIEND_DELETE H c = Some ToxErrUnknown"
  by (auto simp: throw_ERR_FRIEND_DELETE_def)

lemma toxcore_h_ERR_FRIEND_DELETE_99: "99 \<notin> range (ERR_FRIEND_DELETE toxcore_h)"
  by (auto simp: toxcore_h_def enum_ERR_FRIEND_DELETE_def split: TOX_ERR_FRIEND_DELETE.splits)

lemma throw_ERR_FRIEND_QUERY_unknown:
  "c \<notin> range (ERR_FRIEND_QUERY H) \<Longrightarrow> throw_ERR_FRIEND_QUERY H c = Some ToxErrUnknown"
  by (auto simp: throw_ERR_FRIEND_QUERY_def)

lemma toxcore_h_ERR_FRIEND_QUERY_99: "99 \<notin> range (ERR_FRIEND_QUERY toxcore_h)"
  by (auto simp: toxcore_h_def enum_ERR_FRIEND_QUERY_def split: TOX_ERR_FRIEND_QUERY.splits)

lemma throw_ERR_FRIEND_GET_PUBLIC_KEY_unknown:
  "c \<notin> range (ERR_FRIEND_GET_PUBLIC_KEY H) \<Longrightarrow> throw_ERR_FRIEND_GET_PUBLIC_KEY H c = Some ToxErrUnknown"
  by (auto simp: throw_ERR_FRIEND_GET_PUBLIC_KEY_def)

lemma toxcore_h_ERR_FRIEND_GET_PUBLIC_KEY_99: "99 \<notin> range (ERR_FRIEND_GET_PUBLIC_KEY toxcore_h)"
  by (auto simp: toxcore_h_def enum_ERR_FRIEND_GET_PUBLIC_KEY_def split: TOX_ERR_FRIEND_GET_PUBLIC_KEY.splits)

lemma throw_ERR_FRIEND_BY_PUBLIC_KEY_unknown:
  "c \<notin> range (ERR_FRIEND_BY_PUBLIC_KEY H) \<Longrightarrow> throw_ERR_FRIEND_BY_PUBLIC_KEY H c = Some ToxErrUnknown"
  by (auto simp: throw_ERR_FRIEND_BY_PUBLIC_KEY_def)

lemma toxcore_h_ERR_FRIEND_BY_PUBLIC_KEY_99: "99 \<notin> range (ERR_FRIEND_BY_PUBLIC_KEY toxcore_h)"
  by (auto simp: toxcore_h_def enum_ERR_FRIEND_BY_PUBLIC_KEY_def split: TOX_ERR_FRIEND_BY_PUBLIC_KEY.splits)

lemma throw_ERR_FRIEND_GET_LAST_ONLINE_unknown:
  "c \<notin> range (ERR_FRIEND_GET_LAST_ONLINE H) \<Longrightarrow> throw_ERR_FRIEND_GET_LAST_ONLINE H c = Some ToxErrUnknown"
  by (auto simp: throw_ERR_FRIEND_GET_LAST_ONLINE_def)

lemma toxcore_h_ERR_FRIEND_GET_LAST_ONLINE_99: "99 \<notin> range (ERR_FRIEND_GET_LAST_ONLINE toxcore_h)"
  by (auto simp: toxcore_h_def enum_ERR_FRIEND_GET_LAST_ONLINE_def split: TOX_ERR_FRIEND_GET_LAST_ONLINE.splits)

lemma throw_ERR_FRIEND_SEND_MESSAGE_unknown:
  "c \<notin> range (ERR_FRIEND_SEND_MESSAGE H) \<Longrightarrow> throw_ERR_FRIEND_SEND_MESSAGE H c = Some ToxErrUnknown"
  by (auto simp: throw_ERR_FRIEND_SEND_MESSAGE_def)

lemma toxcore_h_ERR_FRIEND_SEND_MESSAGE_99: "99 \<notin> range (ERR_FRIEND_SEND_MESSAGE toxcore_h)"
  by (auto simp: toxcore_h_def enum_ERR_FRIEND_SEND_MESSAGE_def split: TOX_ERR_FRIEND_SEND_MESSAGE.splits)

lemma throw_ERR_FRIEND_CUSTOM_PACKET_unknown:
  "c \<notin> range (ERR_FRIEND_CUSTOM_PACKET H) \<Longrightarrow> throw_ERR_FRIEND_CUSTOM_PACKET H c = Some ToxErrUnknown"
  by (auto simp: throw_ERR_FRIEND_CUSTOM_PACKET_def)

lemma toxcore_h_ERR_FRIEND_CUSTOM_PACKET_99: "99 \<notin> range (ERR_FRIEND_CUSTOM_PACKET toxcore_h)"
  by (auto simp: toxcore_h_def enum_ERR_FRIEND_CUSTOM_PACKET_def split: TOX_ERR_FRIEND_CUSTOM_PACKET.splits)

text \<open>
  Claim C2. For every error enumeration of the engine and every result code that is none
  of the enumerators the binding names for it, the translation of the code gives the
  error \<open>ToxErrUnknown\<close>: it gives an error, and no other one. The translation is a
  total function, with no panic in it.
\<close>

theorem unknown_code_gives_ToxErrUnknown:
  "(c \<notin> range (ERR_NEW H) \<longrightarrow> throw_ERR_NEW H c = Some ToxErrUnknown)
   \<and> (c \<notin> range (ERR_BOOTSTRAP H) \<longrightarrow> throw_ERR_BOOTSTRAP H c = Some ToxErrUnknown)
   \<and> (c \<notin> range (ERR_SET_INFO H) \<longrightarrow> throw_ERR_SET_INFO H c = Some ToxErrUnknown)
   \<and> (c \<notin> range (ERR_FRIEND_ADD H) \<longrightarrow> throw_ERR_FRIEND_ADD H c = Some ToxErrUnknown)
   \<and> (c \<notin> range (ERR_FRIEND_DELETE H) \<longrightarrow> throw_ERR_FRIEND_DELETE H c = Some ToxErrUnknown)
   \<and> (c \<notin> range (ERR_FRIEND_QUERY H) \<longrightarrow> throw_ERR_FRIEND_QUERY H c = Some ToxErrUnknown)
   \<and> (c \<notin> range (ERR_FRIEND_GET_PUBLIC_KEY H) \<longrightarrow> throw_ERR_FRIEND_GET_PUBLIC_KEY H c = Some ToxErrUnknown)
   \<and> (c \<notin> range (ERR_FRIEND_BY_PUBLIC_KEY H) \<longrightarrow> throw_ERR_FRIEND_BY_PUBLIC_KEY H c = Some ToxErrUnknown)
   \<and> (c \<notin> range (ERR_FRIEND_GET_LAST_ONLINE H) \<longrightarrow> throw_ERR_FRIEND_GET_LAST_ONLINE H c = Some ToxErrUnknown)
   \<and> (c \<notin> range (ERR_FRIEND_SEND_MESSAGE H) \<longrightarrow> throw_ERR_FRIEND_SEND_MESSAGE H c = Some ToxErrUnknown)
   \<and> (c \<notin> range (ERR_FRIEND_CUSTOM_PACKET H) \<longrightarrow> throw_ERR_FRIEND_CUSTOM_PACKET H c = Some ToxErrUnknown)"
  by (simp add: throw_ERR_NEW_unknown throw_ERR_BOOTSTRAP_unknown throw_ERR_SET_INFO_unknown throw_ERR_FRIEND_ADD_unknown throw_ERR_FRIEND_DELETE_unknown throw_ERR_FRIEND_QUERY_unknown throw_ERR_FRIEND_GET_PUBLIC_KEY_unknown throw_ERR_FRIEND_BY_PUBLIC_KEY_unknown throw_ERR_FRIEND_GET_LAST_ONLINE_unknown throw_ERR_FRIEND_SEND_MESSAGE_unknown throw_ERR_FRIEND_CUSTOM_PACKET_unknown)

text \<open>The code 99 under the header numbered from 0 is outside every enumeration.\<close>

theorem unknown_code_gives_ToxErrUnknown_witness:
  "99 \<notin> range (ERR_NEW toxcore_h) \<and> throw_ERR_NEW toxcore_h 99 = Some ToxErrUnknown
   \<and> 99 \<notin> range (ERR_BOOTSTRAP toxcore_h) \<and> throw_ERR_BOOTSTRAP toxcore_h 99 = Some ToxErrUnknown
   \<and> 99 \<notin> range (ERR_SET_INFO toxcore_h) \<and> throw_ERR_SET_INFO toxcore_h 99 = Some ToxErrUnknown
   \<and> 99 \<notin> range (ERR_FRIEND_ADD toxcore_h) \<and> throw_ERR_FRIEND_ADD toxcore_h 99 = Some ToxErrUnknown
   \<and> 99 \<notin> range (ERR_FRIEND_DELETE toxcore_h) \<and> throw_ERR_FRIEND_DELETE toxcore_h 99 = Some ToxErrUnknown
   \<and> 99 \<notin> range (ERR_FRIEND_QUERY toxcore_h) \<and> throw_ERR_FRIEND_QUERY toxcore_h 99 = Some ToxErrUnknown
   \<and> 99 \<notin> range (ERR_FRIEND_GET_PUBLIC_KEY toxcore_h) \<and> throw_ERR_FRIEND_GET_PUBLIC_KEY toxcore_h 99 = Some ToxErrUnknown
   \<and> 99 \<notin> range (ERR_FRIEND_BY_PUBLIC_KEY toxcore_h) \<and> throw_ERR_FRIEND_BY_PUBLIC_KEY toxcore_h 99 = Some ToxErrUnknown
   \<and> 99 \<notin> range (ERR_FRIEND_GET_LAST_ONLINE toxcore_h) \<and> throw_ERR_FRIEND_GET_LAST_ONLINE toxcore_h 99 = Some ToxErrUnknown
   \<and> 99 \<notin> range (ERR_FRIEND_SEND_MESSAGE toxcore_h) \<and> throw_ERR_FRIEND_SEND_MESSAGE toxcore_h 99 = Some ToxErrUnknown
   \<and> 99 \<notin> range (ERR_FRIEND_CUSTOM_PACKET toxcore_h) \<and> throw_ERR_FRIEND_CUSTOM_PACKET toxcore_h 99 = Some ToxErrUnknown"
  using unknown_code_gives_ToxErrUnknown [of 99 toxcore_h]
  by (simp add: toxcore_h_ERR_NEW_99 toxcore_h_ERR_BOOTSTRAP_99 toxcore_h_ERR_SET_INFO_99 toxcore_h_ERR_FRIEND_ADD_99 toxcore_h_ERR_FRIEND_DELETE_99 toxcore_h_ERR_FRIEND_QUERY_99 toxcore_h_ERR_FRIEND_GET_PUBLIC_KEY_99 toxcore_h_ERR_FRIEND_BY_PUBLIC_KEY_99 toxcore_h_ERR_FRIEND_GET_LAST_ONLINE_99 toxcore_h_ERR_FRIEND_SEND_MESSAGE_99 toxcore_h_ERR_FRIEND_CUSTOM_PACKET_99)

section \<open>Unknown enumerated values in the trampolines\<close>

lemma callback_self_connection_status_unknown:
  assumes "c \<notin> range (CONNECTION H)"
  shows "callback_self_connection_status H tox c = Panics ''unknown connection status''"
proof -
  from assms have "c \<noteq> CONNECTION H TOX_CONNECTION_NONE" "c \<noteq> CONNECTION H TOX_CONNECTION_TCP"
    "c \<noteq> CONNECTION H TOX_CONNECTION_UDP" by blast+
  then show ?thesis by (simp add: callback_self_connection_status_def)
qed

lemma callback_friend_connection_status_unknown:
  assumes "c \<notin> range (CONNECTION H)"
  shows "callback_friend_connection_status H tox n c = Panics ''unknown connection status''"
proof -
  from assms have "c \<noteq> CONNECTION H TOX_CONNECTION_NONE" "c \<noteq> CONNECTION H TOX_CONNECTION_TCP"
    "c \<noteq> CONNECTION H TOX_CONNECTION_UDP" by blast+
  then show ?thesis by (simp add: callback_friend_connection_status_def)
qed

lemma callback_friend_status_unknown:
  assumes "c \<notin> range (USER_STATUS H)"
  shows "callback_friend_status H tox n c = Panics ''unknown user status''"
proof -
  from assms have "c \<noteq> USER_STATUS H TOX_USER_STATUS_NONE" "c \<noteq> USER_STATUS H TOX_USER_STATUS_AWAY"
    "c \<noteq> USER_STATUS H TOX_USER_STATUS_BUSY" by blast+
  then show ?thesis by (simp add: callback_friend_status_def)
qed

lemma callback_friend_message_unknown:
  assumes "c \<notin> range (MESSAGE_TYPE H)"
  shows "callback_friend_message H tox n c c_message c_length = Panics ''unknown message type''"
proof -
  from assms have "c \<noteq> MESSAGE_TYPE H TOX_MESSAGE_TYPE_NORMAL"
    "c \<noteq> MESSAGE_TYPE H TOX_MESSAGE_TYPE_ACTION" by blast+
  then show ?thesis by (simp add: callback_friend_message_def)
qed

lemma toxcore_h_CONNECTION_3: "3 \<notin> range (CONNECTION toxcore_h)"
  by (auto simp: toxcore_h_def enum_CONNECTION_def split: TOX_CONNECTION.splits)

lemma toxcore_h_USER_STATUS_3: "3 \<notin> range (USER_STATUS toxcore_h)"
  by (auto simp: toxcore_h_def enum_USER_STATUS_def split: TOX_USER_STATUS.splits)

lemma toxcore_h_MESSAGE_TYPE_3: "3 \<notin> range (MESSAGE_TYPE toxcore_h)"
  by (auto simp: toxcore_h_def enum_MESSAGE_TYPE_def split: TOX_MESSAGE_TYPE.splits)

text \<open>
  Claim C1 says that a trampoline never aborts on an enumerated value outside the
  recognised set. Under the header numbered from 0 the connection status 3 is outside
  the set, and \<^verbatim>\<open>callback_self_connection_status\<close> panics on it.
\<close>

theorem trampoline_panics_counterexample:
  "3 \<notin> range (CONNECTION toxcore_h)
   \<and> callback_self_connection_status toxcore_h echo_tox 3 = Panics ''unknown connection status''"
  by (simp add: toxcore_h_CONNECTION_3)
     (simp add: callback_self_connection_status_def toxcore_h_def enum_CONNECTION_def)

text \<open>
  Claim C1, amended. In each of the four trampolines that decode an enumerated field
  (self connection status, friend connection status, friend status, friend message), a
  value that is none of the enumerators the trampoline names makes it panic with the
  message of its \<^verbatim>\<open>default\<close> case; the handler is not called.
\<close>

theorem trampoline_unknown_enum_panics:
  "(c \<notin> range (CONNECTION H) \<longrightarrow>
      callback_self_connection_status H tox c = Panics ''unknown connection status''
      \<and> callback_friend_connection_status H tox n c = Panics ''unknown connection status'')
   \<and> (c \<notin> range (USER_STATUS H) \<longrightarrow>
      callback_friend_status H tox n c = Panics ''unknown user status'')
   \<and> (c \<notin> range (MESSAGE_TYPE H) \<longrightarrow>
      callback_friend_message H tox n c c_message c_length = Panics ''unknown message type'')"
  using callback_self_connection_status_unknown [of c H tox]
    callback_friend_connection_status_unknown [of c H tox n]
    callback_friend_status_unknown [of c H tox n]
    callback_friend_message_unknown [of c H tox n c_message c_length]
  by blast

theorem trampoline_unknown_enum_panics_witness:
  "3 \<notin> range (CONNECTION toxcore_h)
   \<and> callback_self_connection_status toxcore_h echo_tox 3 = Panics ''unknown connection status''
   \<and> callback_friend_connection_status toxcore_h echo_tox 0 3 = Panics ''unknown connection status''
   \<and> 3 \<notin> range (USER_STATUS toxcore_h)
   \<and> callback_friend_status toxcore_h echo_tox 0 3 = Panics ''unknown user status''
   \<and> 3 \<notin> range (MESSAGE_TYPE toxcore_h)
   \<and> callback_friend_message toxcore_h echo_tox 0 3 (\<lambda>i. 0) 0 = Panics ''unknown message type''"
  using trampoline_unknown_enum_panics [of 3 toxcore_h echo_tox 0 "\<lambda>i. 0" 0]
    toxcore_h_CONNECTION_3 toxcore_h_USER_STATUS_3 toxcore_h_MESSAGE_TYPE_3
  by blast

section \<open>Round trip of the startup options\<close>

text \<open>
  Claim C3 says that GoOptions of COptions gives back every field of a valid
  configuration. The configuration \<open>nul_host_options\<close> has no proxy, so that its host is
  ignored and may be any string; its host \<^verbatim>\<open>"a\x00b"\<close> comes back as \<^verbatim>\<open>"a"\<close>.
\<close>

theorem GoOptions_of_COptions_counterexample:
  "GoOptions_of_COptions toxcore_h nul_host_options w0 =
     Some (Inr \<lparr>IPv6Enabled = True, UDPEnabled = True, ProxyType = ToxProxyTypeNone,
                ProxyHost = ''a'', ProxyPort = 0, StartPort = 0, EndPort = 0, TCPPort = 0,
                SaveData = Some []\<rparr>)"
  apply (simp add: GoOptions_of_COptions_def COptions_def GoOptions_def nul_host_options_def w0_def
    toxcore_h_def enum_PROXY_TYPE_def enum_SAVEDATA_TYPE_def ToxProxyTypeNone_def ToxProxyTypeHttp_def ToxProxyTypeSocks5_def
    CString_block slice2array_block C_GoString_def array2slice_def len_def elems_def make_slice_def
    byte_of_char_NUL char_of_byte_of_char Let_def)
  done

text \<open>
  Claim C3, amended. For every configuration whose proxy type is one of the three
  constants, under a header whose three proxy enumerators differ, GoOptions of COptions
  succeeds and gives back the flags, the proxy type, the four ports and the bytes of the
  save data (a \<^verbatim>\<open>nil\<close> save data comes back as a present empty one); the proxy host
  comes back up to its first NUL byte, so exactly when it holds none.
\<close>

theorem GoOptions_of_COptions_roundtrip:
  assumes known: "ProxyType C \<in> {ToxProxyTypeNone, ToxProxyTypeHttp, ToxProxyTypeSocks5}"
    and distinct: "inj (PROXY_TYPE H)"
  shows "GoOptions_of_COptions H C w =
           Some (Inr (C\<lparr>ProxyHost := takeWhile (\<lambda>c. c \<noteq> CHR 0x00) (ProxyHost C),
                        SaveData := Some (elems (SaveData C))\<rparr>))
         \<and> (CHR 0x00 \<notin> set (ProxyHost C) \<longrightarrow>
              GoOptions_of_COptions H C w = Some (Inr (C\<lparr>SaveData := Some (elems (SaveData C))\<rparr>)))"
proof -
  let ?w' = "w\<lparr>blocks := (blocks w)(brk w \<mapsto> map byte_of_char (ProxyHost C) @ [0],
                                   Suc (brk w) \<mapsto> elems (SaveData C)),
            brk := Suc (Suc (brk w))\<rparr>"
  have host: "C_GoString ?w' (Some (brk w)) = Some (takeWhile (\<lambda>c. c \<noteq> CHR 0x00) (ProxyHost C))"
    by (rule GoString_CString_block) simp
  have data: "array2slice ?w' (Some (Suc (brk w))) (len (SaveData C)) = Some (Some (elems (SaveData C)))"
  proof (cases "len (SaveData C) = 0")
    case True
    then show ?thesis by (simp add: array2slice_def make_slice_def len_elems)
  next
    case False
    have "array2slice ?w' (Some (Suc (brk w))) (len (SaveData C))
            = Some (Some (take (len (SaveData C)) (elems (SaveData C))))"
      by (rule array2slice_block) (simp_all add: len_elems)
    then show ?thesis by (simp add: len_elems)
  qed
  have ne: "PROXY_TYPE H TOX_PROXY_TYPE_HTTP \<noteq> PROXY_TYPE H TOX_PROXY_TYPE_NONE"
       "PROXY_TYPE H TOX_PROXY_TYPE_SOCKS5 \<noteq> PROXY_TYPE H TOX_PROXY_TYPE_NONE"
       "PROXY_TYPE H TOX_PROXY_TYPE_SOCKS5 \<noteq> PROXY_TYPE H TOX_PROXY_TYPE_HTTP"
    using distinct by (simp_all add: inj_eq)
  have first: "GoOptions_of_COptions H C w =
           Some (Inr (C\<lparr>ProxyHost := takeWhile (\<lambda>c. c \<noteq> CHR 0x00) (ProxyHost C),
                        SaveData := Some (elems (SaveData C))\<rparr>))"
    using known ne
    by (auto simp: GoOptions_of_COptions_def COptions_known [OF known] GoOptions_def host data)
  moreover have "CHR 0x00 \<notin> set (ProxyHost C) \<Longrightarrow>
      takeWhile (\<lambda>c. c \<noteq> CHR 0x00) (ProxyHost C) = ProxyHost C"
    by (auto simp: takeWhile_eq_all_conv)
  ultimately show ?thesis by auto
qed


theorem GoOptions_of_COptions_roundtrip_witness:
  "ProxyType saved_options \<in> {ToxProxyTypeNone, ToxProxyTypeHttp, ToxProxyTypeSocks5}
   \<and> inj (PROXY_TYPE toxcore_h)
   \<and> CHR 0x00 \<notin> set (ProxyHost saved_options)
   \<and> GoOptions_of_COptions toxcore_h saved_options w0 = Some (Inr saved_options)"
proof -
  have known: "ProxyType saved_options \<in> {ToxProxyTypeNone, ToxProxyTypeHttp, ToxProxyTypeSocks5}"
    by (simp add: saved_options_def ToxProxyTypeNone_def)
  have distinct: "inj (PROXY_TYPE toxcore_h)"
    by (auto simp: inj_def toxcore_h_def enum_PROXY_TYPE_def split: TOX_PROXY_TYPE.splits)
  have host: "CHR 0x00 \<notin> set (ProxyHost saved_options)"
    by (simp add: saved_options_def)
  have same: "saved_options\<lparr>SaveData := Some (elems (SaveData saved_options))\<rparr> = saved_options"
    by (simp add: saved_options_def elems_def)
  have "GoOptions_of_COptions toxcore_h saved_options w0 =
          Some (Inr (saved_options\<lparr>SaveData := Some (elems (SaveData saved_options))\<rparr>))"
    using GoOptions_of_COptions_roundtrip [OF known distinct, of w0] host by blast
  then have "GoOptions_of_COptions toxcore_h saved_options w0 = Some (Inr saved_options)"
    unfolding same .
  with known distinct host show ?thesis by blast
qed

section \<open>The tag of the save data\<close>

text \<open>
  Claim C4. Whenever COptions gives an engine configuration, its save data tag is
  \<^verbatim>\<open>TOX_SAVEDATA_TYPE_NONE\<close> if the save data of the Go configuration has length 0
  (\<^verbatim>\<open>nil\<close> or empty), and else \<^verbatim>\<open>TOX_SAVEDATA_TYPE_TOX_SAVE\<close>, and its save data
  length is that length.
\<close>

theorem COptions_savedata_type:
  assumes "COptions H options w = (Inr c_options, w')"
  shows "(len (SaveData options) = 0 \<longrightarrow>
            savedata_type c_options = SAVEDATA_TYPE H TOX_SAVEDATA_TYPE_NONE
            \<and> savedata_length c_options = 0)
         \<and> (len (SaveData options) \<noteq> 0 \<longrightarrow>
            savedata_type c_options = SAVEDATA_TYPE H TOX_SAVEDATA_TYPE_TOX_SAVE
            \<and> savedata_length c_options = len (SaveData options))"
proof -
  have "ProxyType options \<in> {ToxProxyTypeNone, ToxProxyTypeHttp, ToxProxyTypeSocks5}"
    using assms by (rule COptions_Inr_known)
  from COptions_known [OF this, of H w] assms show ?thesis by auto
qed

theorem COptions_savedata_type_witness:
  "(\<exists>c w'. COptions toxcore_h nul_host_options w0 = (Inr c, w')
       \<and> len (SaveData nul_host_options) = 0
       \<and> savedata_type c = SAVEDATA_TYPE toxcore_h TOX_SAVEDATA_TYPE_NONE
       \<and> savedata_length c = 0)
   \<and> (\<exists>c w'. COptions toxcore_h saved_options w0 = (Inr c, w')
       \<and> len (SaveData saved_options) = 3
       \<and> savedata_type c = SAVEDATA_TYPE toxcore_h TOX_SAVEDATA_TYPE_TOX_SAVE
       \<and> savedata_length c = 3)"
proof -
  have k1: "ProxyType nul_host_options \<in> {ToxProxyTypeNone, ToxProxyTypeHttp, ToxProxyTypeSocks5}"
    by (simp add: nul_host_options_def ToxProxyTypeNone_def)
  have k2: "ProxyType saved_options \<in> {ToxProxyTypeNone, ToxProxyTypeHttp, ToxProxyTypeSocks5}"
    by (simp add: saved_options_def ToxProxyTypeNone_def)
  obtain c1 w1 where r1: "COptions toxcore_h nul_host_options w0 = (Inr c1, w1)"
    using COptions_known [OF k1] by blast
  obtain c2 w2 where r2: "COptions toxcore_h saved_options w0 = (Inr c2, w2)"
    using COptions_known [OF k2] by blast
  have l1: "len (SaveData nul_host_options) = 0"
    by (simp add: nul_host_options_def len_def)
  have l2: "len (SaveData saved_options) = 3"
    by (simp add: saved_options_def len_def)
  from COptions_savedata_type [OF r1] COptions_savedata_type [OF r2] r1 r2 l1 l2
  show ?thesis by simp
qed

section \<open>Release of the engine configuration in New\<close>

text \<open>
  Claim C5. When New is given a configuration that COptions translates, then on every way
  out of New, whatever the engine answers to \<^verbatim>\<open>tox_new\<close>, the two blocks that COptions
  allocated (the proxy host string and the save data) have been given to \<^verbatim>\<open>C.free\<close>,
  these two and no other, after the engine call; no other block changes. When the
  engine's code is not \<^verbatim>\<open>TOX_ERR_NEW_OK\<close>, New returns no instance and the translated
  error.
\<close>

theorem New_frees_options:
  assumes translated: "COptions H options w = (Inr c_options, w1)"
    and returned: "New H E (Some options) w = ((tox, throw), w')"
  shows "\<exists>host data.
           proxy_host c_options = Some host \<and> savedata_data c_options = Some data
           \<and> host \<noteq> data \<and> blocks w1 host \<noteq> None \<and> blocks w1 data \<noteq> None
           \<and> calls w' = calls w @ [Call_tox_new (Some c_options)]
           \<and> freed w' = freed w @ [host, data]
           \<and> blocks w' host = None \<and> blocks w' data = None
           \<and> (\<forall>a. a \<noteq> host \<and> a \<noteq> data \<longrightarrow> blocks w' a = blocks w a)
           \<and> (snd (tox_new E (Some c_options) w1) \<noteq> ERR_NEW H TOX_ERR_NEW_OK \<longrightarrow>
                tox = None \<and> throw = throw_ERR_NEW H (snd (tox_new E (Some c_options) w1))
                \<and> throw \<noteq> None)"
proof -
  have known: "ProxyType options \<in> {ToxProxyTypeNone, ToxProxyTypeHttp, ToxProxyTypeSocks5}"
    using translated by (rule COptions_Inr_known)
  note eq = COptions_known [OF known, of H w]
  from eq translated have host: "proxy_host c_options = Some (brk w)"
    and data: "savedata_data c_options = Some (Suc (brk w))"
    and w1: "w1 = w\<lparr>blocks := (blocks w)(brk w \<mapsto> map byte_of_char (ProxyHost options) @ [0],
                                   Suc (brk w) \<mapsto> elems (SaveData options)),
            brk := Suc (Suc (brk w))\<rparr>"
    by auto
  obtain c_tox c_error where answer: "tox_new E (Some c_options) w1 = (c_tox, c_error)"
    by (cases "tox_new E (Some c_options) w1")
  from returned translated answer
  have w': "w' = FreeOptions c_options (w1\<lparr>calls := calls w1 @ [Call_tox_new (Some c_options)]\<rparr>)"
    and res: "(tox, throw) = New_tox H c_tox c_error"
    by (simp_all add: New_def C_tox_new_def)
  have failed: "c_error \<noteq> ERR_NEW H TOX_ERR_NEW_OK \<Longrightarrow>
      tox = None \<and> throw = throw_ERR_NEW H c_error \<and> throw \<noteq> None"
    using res by (auto simp: New_tox_def throw_ERR_NEW_def)
  have failed': "snd (tox_new E (Some c_options) w1) \<noteq> ERR_NEW H TOX_ERR_NEW_OK \<longrightarrow>
      tox = None \<and> throw = throw_ERR_NEW H (snd (tox_new E (Some c_options) w1)) \<and> throw \<noteq> None"
    using failed answer by auto
  have heap: "proxy_host c_options = Some (brk w) \<and> savedata_data c_options = Some (Suc (brk w))
      \<and> brk w \<noteq> Suc (brk w) \<and> blocks w1 (brk w) \<noteq> None \<and> blocks w1 (Suc (brk w)) \<noteq> None
      \<and> calls w' = calls w @ [Call_tox_new (Some c_options)]
      \<and> freed w' = freed w @ [brk w, Suc (brk w)]
      \<and> blocks w' (brk w) = None \<and> blocks w' (Suc (brk w)) = None
      \<and> (\<forall>a. a \<noteq> brk w \<and> a \<noteq> Suc (brk w) \<longrightarrow> blocks w' a = blocks w a)"
    by (simp add: host data w' w1 FreeOptions_def C_free_def)
  from heap failed' show ?thesis by blast
qed

text \<open>Creation fails with \<^verbatim>\<open>TOX_ERR_NEW_PORT_ALLOC\<close>, and both blocks are freed.\<close>

theorem New_frees_options_witness:
  "\<exists>c_options w1 w'.
     COptions toxcore_h saved_options w0 = (Inr c_options, w1)
     \<and> New toxcore_h no_friends (Some saved_options) w0
         = ((None :: int Tox option, Some ToxErrNewPortAlloc), w')
     \<and> proxy_host c_options = Some 1 \<and> savedata_data c_options = Some 2
     \<and> blocks w1 1 \<noteq> None \<and> blocks w1 2 \<noteq> None
     \<and> freed w' = [1, 2] \<and> blocks w' 1 = None \<and> blocks w' 2 = None"
proof -
  have known: "ProxyType saved_options \<in> {ToxProxyTypeNone, ToxProxyTypeHttp, ToxProxyTypeSocks5}"
    by (simp add: saved_options_def ToxProxyTypeNone_def)
  obtain c w1 where r1: "COptions toxcore_h saved_options w0 = (Inr c, w1)"
    and host: "proxy_host c = Some 1" and data: "savedata_data c = Some 2"
    using COptions_known [OF known, of toxcore_h w0] by (simp add: w0_def)
  obtain tox :: "int Tox option" and throw w'
    where r2: "New toxcore_h no_friends (Some saved_options) w0 = ((tox, throw), w')"
    by (metis surj_pair)
  have code: "snd (tox_new no_friends (Some c) w1) = 3" by (simp add: no_friends_def)
  have ok: "ERR_NEW toxcore_h TOX_ERR_NEW_OK = 0" by (simp add: toxcore_h_def enum_ERR_NEW_def)
  have port: "throw_ERR_NEW toxcore_h 3 = Some ToxErrNewPortAlloc"
    by (simp add: throw_ERR_NEW_def toxcore_h_def enum_ERR_NEW_def)
  have f0: "freed w0 = []" by (simp add: w0_def)
  from New_frees_options [OF r1 r2] host data code ok port f0
  have "tox = None \<and> throw = Some ToxErrNewPortAlloc \<and> blocks w1 1 \<noteq> None \<and> blocks w1 2 \<noteq> None
      \<and> freed w' = [1, 2] \<and> blocks w' 1 = None \<and> blocks w' 2 = None"
    by auto
  with r1 r2 host data show ?thesis by blast
qed

section \<open>Size-then-fetch queries\<close>

lemma written_Some: "\<exists>bs. written (Some buf) data = Some bs \<and> length bs = length buf"
  by (auto simp: written_def min_def)

lemma Serialize_present:
  "\<exists>bs. Serialize E tox = Some bs \<and> length bs = tox_get_savedata_size E (handle tox)"
  using written_Some [of "replicate (tox_get_savedata_size E (handle tox)) 0"]
  by (simp add: Serialize_def Let_def make_slice_def)

lemma GetName_present:
  "\<exists>bs. GetName E tox = Some bs \<and> length bs = tox_self_get_name_size E (handle tox)"
  using written_Some [of "replicate (tox_self_get_name_size E (handle tox)) 0"]
  by (simp add: GetName_def Let_def make_slice_def first_elem_def)

lemma GetStatusMessage_present:
  "\<exists>bs. GetStatusMessage E tox = Some bs
        \<and> length bs = tox_self_get_status_message_size E (handle tox)"
  using written_Some [of "replicate (tox_self_get_status_message_size E (handle tox)) 0"]
  by (simp add: GetStatusMessage_def Let_def make_slice_def first_elem_def)

text \<open>
  Claim C6. Serialize, GetName and GetStatusMessage return a present (non-nil) slice
  whose length is the size that the engine reports; when that size is 0, the slice is
  present and empty.
\<close>

theorem size_then_fetch:
  "Serialize E tox \<noteq> None \<and> len (Serialize E tox) = tox_get_savedata_size E (handle tox)
   \<and> GetName E tox \<noteq> None \<and> len (GetName E tox) = tox_self_get_name_size E (handle tox)
   \<and> GetStatusMessage E tox \<noteq> None
   \<and> len (GetStatusMessage E tox) = tox_self_get_status_message_size E (handle tox)
   \<and> (tox_get_savedata_size E (handle tox) = 0 \<longrightarrow> Serialize E tox = Some [])
   \<and> (tox_self_get_name_size E (handle tox) = 0 \<longrightarrow> GetName E tox = Some [])
   \<and> (tox_self_get_status_message_size E (handle tox) = 0 \<longrightarrow> GetStatusMessage E tox = Some [])"
proof -
  obtain s where s: "Serialize E tox = Some s" "length s = tox_get_savedata_size E (handle tox)"
    using Serialize_present by blast
  obtain n where n: "GetName E tox = Some n" "length n = tox_self_get_name_size E (handle tox)"
    using GetName_present by blast
  obtain m where m: "GetStatusMessage E tox = Some m"
      "length m = tox_self_get_status_message_size E (handle tox)"
    using GetStatusMessage_present by blast
  from s n m show ?thesis by (auto simp: len_def)
qed

theorem size_then_fetch_witness:
  "tox_get_savedata_size no_friends (handle echo_tox) = 0
   \<and> Serialize no_friends echo_tox = Some []
   \<and> tox_self_get_name_size no_friends (handle echo_tox) = 0
   \<and> GetName no_friends echo_tox = Some []
   \<and> tox_self_get_status_message_size no_friends (handle echo_tox) = 0
   \<and> GetStatusMessage no_friends echo_tox = Some []"
  using size_then_fetch [of no_friends echo_tox]
  by (simp add: no_friends_def)

section \<open>One handler for each event kind\<close>

text \<open>
  Claim C7. An instance has one slot for each event kind, so it holds at most one handler
  of a kind. Registering a handler \<open>h\<close> for a kind after a handler \<open>g\<close> leaves the
  instance as it was before both, but for \<open>h\<close> in the slot of the kind: \<open>g\<close> is gone and
  the other slots are untouched. Each registration gives the engine the trampoline of the
  kind again.
\<close>

theorem registration_replaces:
  "SetOnSelfConnectionStatus h0 (fst (SetOnSelfConnectionStatus g0 tox w)) (snd (SetOnSelfConnectionStatus g0 tox w)) =
     (tox\<lparr>onSelfConnectionStatus := h0\<rparr>,
      register self_connection_status (handle tox) (register self_connection_status (handle tox) w))
   \<and> SetOnFriendRequest h1 (fst (SetOnFriendRequest g1 tox w)) (snd (SetOnFriendRequest g1 tox w)) =
     (tox\<lparr>onFriendRequest := h1\<rparr>,
      register friend_request (handle tox) (register friend_request (handle tox) w))
   \<and> SetOnFriendName h2 (fst (SetOnFriendName g2 tox w)) (snd (SetOnFriendName g2 tox w)) =
     (tox\<lparr>onFriendName := h2\<rparr>,
      register friend_name (handle tox) (register friend_name (handle tox) w))
   \<and> SetOnFriendStatus h3 (fst (SetOnFriendStatus g3 tox w)) (snd (SetOnFriendStatus g3 tox w)) =
     (tox\<lparr>onFriendStatus := h3\<rparr>,
      register friend_status (handle tox) (register friend_status (handle tox) w))
   \<and> SetOnFriendStatusMessage h4 (fst (SetOnFriendStatusMessage g4 tox w)) (snd (SetOnFriendStatusMessage g4 tox w)) =
     (tox\<lparr>onFriendStatusMessage := h4\<rparr>,
      register friend_status_message (handle tox) (register friend_status_message (handle tox) w))
   \<and> SetOnFriendConnectionStatus h5 (fst (SetOnFriendConnectionStatus g5 tox w)) (snd (SetOnFriendConnectionStatus g5 tox w)) =
     (tox\<lparr>onFriendConnectionStatus := h5\<rparr>,
      register friend_connection_status (handle tox) (register friend_connection_status (handle tox) w))
   \<and> SetOnFriendMessage h6 (fst (SetOnFriendMessage g6 tox w)) (snd (SetOnFriendMessage g6 tox w)) =
     (tox\<lparr>onFriendMessage := h6\<rparr>,
      register friend_message (handle tox) (register friend_message (handle tox) w))
   \<and> SetOnFriendLosslessPacket h7 (fst (SetOnFriendLosslessPacket g7 tox w)) (snd (SetOnFriendLosslessPacket g7 tox w)) =
     (tox\<lparr>onFriendLosslessPacket := h7\<rparr>,
      register friend_lossless_packet (handle tox) (register friend_lossless_packet (handle tox) w))"
  by (simp add: SetOnSelfConnectionStatus_def SetOnFriendRequest_def SetOnFriendName_def SetOnFriendStatus_def SetOnFriendStatusMessage_def SetOnFriendConnectionStatus_def SetOnFriendMessage_def SetOnFriendLosslessPacket_def register_def)

section \<open>Validation of the seed node's key in Bootstrap\<close>

text \<open>
  What \<^verbatim>\<open>hex.DecodeString\<close> accepts: the strings of even length made of hexadecimal
  characters only; the decoded bytes are half as many as the characters.
\<close>

lemma hex_DecodeString_ok_iff:
  "(\<exists>bs. hex_DecodeString s = Inr bs) \<longleftrightarrow> even (length s) \<and> (\<forall>c \<in> set s. fromHexChar c \<noteq> None)"
  by (induction s rule: hex_DecodeString.induct) (auto split: option.splits sum.splits)

lemma hex_DecodeString_length:
  "hex_DecodeString s = Inr bs \<Longrightarrow> length s = 2 * length bs"
  by (induction s arbitrary: bs rule: hex_DecodeString.induct) (auto split: option.splits sum.splits)

lemma throw_ERR_BOOTSTRAP_cases:
  "throw_ERR_BOOTSTRAP H c \<in> {None, Some ToxErrBootstrapNull, Some ToxErrBootstrapBadHost,
     Some ToxErrBootstrapBadPort, Some ToxErrUnknown}"
  by (simp add: throw_ERR_BOOTSTRAP_def)

lemma Bootstrap_no_hex:
  assumes "hex_DecodeString (PublicKey seedNode) = Inl err"
  shows "fst (Bootstrap H E tox seedNode w) = Returns (Some (hex_Error err))"
    and "calls (snd (Bootstrap H E tox seedNode w)) = calls w"
  using assms by (simp_all add: Bootstrap_def CString_block C_free_def)

lemma Bootstrap_wrong_length:
  assumes "hex_DecodeString (PublicKey seedNode) = Inr publicKey"
    and "length publicKey \<noteq> PUBLIC_KEY_SIZE H"
  shows "fst (Bootstrap H E tox seedNode w) = Returns (Some (errors_New ''invalid public key''))"
    and "calls (snd (Bootstrap H E tox seedNode w)) = calls w"
  using assms by (simp_all add: Bootstrap_def CString_block C_free_def)

text \<open>
  Claim C8. When the key of the seed node is no hexadecimal string, Bootstrap returns the
  error of \<^verbatim>\<open>hex.DecodeString\<close>; when it decodes to a number of bytes other than the
  public key size, Bootstrap returns the error "invalid public key". In both cases the
  engine's \<^verbatim>\<open>tox_bootstrap\<close> is not called. Neither error is one of the bootstrap errors
  Null, BadHost, BadPort, nor any error that the translation of the engine's bootstrap
  code gives.
\<close>

theorem Bootstrap_rejects_key:
  "(hex_DecodeString (PublicKey seedNode) = Inl err \<longrightarrow>
      fst (Bootstrap H E tox seedNode w) = Returns (Some (hex_Error err))
      \<and> calls (snd (Bootstrap H E tox seedNode w)) = calls w)
   \<and> (hex_DecodeString (PublicKey seedNode) = Inr publicKey
        \<and> length publicKey \<noteq> PUBLIC_KEY_SIZE H \<longrightarrow>
      fst (Bootstrap H E tox seedNode w) = Returns (Some (errors_New ''invalid public key''))
      \<and> calls (snd (Bootstrap H E tox seedNode w)) = calls w)
   \<and> hex_Error err \<notin> {ToxErrBootstrapNull, ToxErrBootstrapBadHost, ToxErrBootstrapBadPort}
   \<and> errors_New ''invalid public key''
        \<notin> {ToxErrBootstrapNull, ToxErrBootstrapBadHost, ToxErrBootstrapBadPort}
   \<and> throw_ERR_BOOTSTRAP H c \<noteq> Some (hex_Error err)
   \<and> throw_ERR_BOOTSTRAP H c \<noteq> Some (errors_New ''invalid public key'')"
proof -
  have "throw_ERR_BOOTSTRAP H c \<noteq> Some (hex_Error err)"
    "throw_ERR_BOOTSTRAP H c \<noteq> Some (errors_New ''invalid public key'')"
    using throw_ERR_BOOTSTRAP_cases [of H c] by auto
  then show ?thesis
    using Bootstrap_no_hex [of seedNode err H E tox w]
      Bootstrap_wrong_length [of seedNode publicKey H E tox w]
    by simp
qed

theorem Bootstrap_rejects_key_witness:
  "hex_DecodeString (PublicKey no_hex_node) = Inl (InvalidByteError CHR ''G'')
   \<and> fst (Bootstrap toxcore_h no_friends echo_tox no_hex_node w0)
       = Returns (Some (hex_Error (InvalidByteError CHR ''G'')))
   \<and> calls (snd (Bootstrap toxcore_h no_friends echo_tox no_hex_node w0)) = []
   \<and> hex_DecodeString (PublicKey short_key_node) = Inr [160, 145]
   \<and> length [160, 145 :: byte] \<noteq> PUBLIC_KEY_SIZE toxcore_h
   \<and> fst (Bootstrap toxcore_h no_friends echo_tox short_key_node w0)
       = Returns (Some (errors_New ''invalid public key''))
   \<and> calls (snd (Bootstrap toxcore_h no_friends echo_tox short_key_node w0)) = []"
proof -
  have d1: "hex_DecodeString (PublicKey no_hex_node) = Inl (InvalidByteError CHR ''G'')"
    by (simp add: no_hex_node_def fromHexChar_def)
  have d2: "hex_DecodeString (PublicKey short_key_node) = Inr [160, 145]"
    by (simp add: short_key_node_def fromHexChar_def)
  have l: "length [160, 145 :: byte] \<noteq> PUBLIC_KEY_SIZE toxcore_h"
    by (simp add: toxcore_h_def)
  have c: "calls w0 = []" by (simp add: w0_def)
  from Bootstrap_rejects_key [of no_hex_node "InvalidByteError CHR ''G''" toxcore_h no_friends echo_tox w0]
    Bootstrap_rejects_key [of short_key_node _ toxcore_h no_friends echo_tox w0 "[160, 145]"]
    d1 d2 l c
  show ?thesis by simp
qed

section \<open>No buffer with an error\<close>

text \<open>
  Claim C9. Whenever FriendGetName or FriendGetStatusMessage returns an error, from the
  size query or from the fetch, the slice it returns is \<^verbatim>\<open>nil\<close>.
\<close>

theorem friend_query_error_nil:
  "(snd (FriendGetName H E tox friendNumber) \<noteq> None \<longrightarrow>
      fst (FriendGetName H E tox friendNumber) = None)
   \<and> (snd (FriendGetStatusMessage H E tox friendNumber) \<noteq> None \<longrightarrow>
      fst (FriendGetStatusMessage H E tox friendNumber) = None)"
  by (simp add: FriendGetName_def FriendGetStatusMessage_def Let_def split: prod.splits)

text \<open>
  With no friend, the size query fails; with a friend lost after the size query, the
  fetch fails. Both give \<^verbatim>\<open>nil\<close> with the error.
\<close>

theorem friend_query_error_nil_witness:
  "FriendGetName toxcore_h no_friends echo_tox 5 = (None, Some ToxErrFriendQueryFriendNotFound)
   \<and> FriendGetStatusMessage toxcore_h no_friends echo_tox 5 = (None, Some ToxErrFriendQueryFriendNotFound)
   \<and> FriendGetName toxcore_h lost_friend echo_tox 5 = (None, Some ToxErrFriendQueryFriendNotFound)
   \<and> FriendGetStatusMessage toxcore_h lost_friend echo_tox 5 = (None, Some ToxErrFriendQueryFriendNotFound)"
proof -
  have e1: "snd (FriendGetName toxcore_h no_friends echo_tox 5) = Some ToxErrFriendQueryFriendNotFound"
    by (simp add: FriendGetName_def no_friends_def toxcore_h_def enum_ERR_FRIEND_QUERY_def
        throw_ERR_FRIEND_QUERY_def)
  have e2: "snd (FriendGetStatusMessage toxcore_h no_friends echo_tox 5) = Some ToxErrFriendQueryFriendNotFound"
    by (simp add: FriendGetStatusMessage_def no_friends_def toxcore_h_def enum_ERR_FRIEND_QUERY_def
        throw_ERR_FRIEND_QUERY_def)
  have e3: "snd (FriendGetName toxcore_h lost_friend echo_tox 5) = Some ToxErrFriendQueryFriendNotFound"
    by (simp add: FriendGetName_def lost_friend_def no_friends_def toxcore_h_def
        enum_ERR_FRIEND_QUERY_def throw_ERR_FRIEND_QUERY_def Let_def)
  have e4: "snd (FriendGetStatusMessage toxcore_h lost_friend echo_tox 5) = Some ToxErrFriendQueryFriendNotFound"
    by (simp add: FriendGetStatusMessage_def lost_friend_def no_friends_def toxcore_h_def
        enum_ERR_FRIEND_QUERY_def throw_ERR_FRIEND_QUERY_def Let_def)
  from friend_query_error_nil [of toxcore_h no_friends echo_tox 5]
    friend_query_error_nil [of toxcore_h lost_friend echo_tox 5] e1 e2 e3 e4
  show ?thesis by (simp add: prod_eq_iff)
qed

section \<open>The message type of FriendSendMessage\<close>

text \<open>
  Claim C10. FriendSendMessage with any message type other than \<open>ToxMessageTypeAction\<close>,
  any integer included, does what it does with \<open>ToxMessageTypeNormal\<close>: the same engine
  call with the same arguments, and the same results.
\<close>

theorem FriendSendMessage_type_total:
  assumes "messageType \<noteq> ToxMessageTypeAction"
  shows "FriendSendMessage H E tox friendNumber messageType message =
         FriendSendMessage H E tox friendNumber ToxMessageTypeNormal message"
  using assms
  by (simp add: FriendSendMessage_def ToxMessageTypeNormal_def ToxMessageTypeAction_def)

theorem FriendSendMessage_type_total_witness:
  "7 \<noteq> ToxMessageTypeAction
   \<and> FriendSendMessage toxcore_h type_echo echo_tox 5 7 (Some [104, 105]) = (0, None)
   \<and> FriendSendMessage toxcore_h type_echo echo_tox 5 ToxMessageTypeNormal (Some [104, 105]) = (0, None)"
proof -
  have ne: "7 \<noteq> ToxMessageTypeAction" by (simp add: ToxMessageTypeAction_def)
  have "FriendSendMessage toxcore_h type_echo echo_tox 5 ToxMessageTypeNormal (Some [104, 105]) = (0, None)"
    by (simp add: FriendSendMessage_def type_echo_def no_friends_def toxcore_h_def
        enum_MESSAGE_TYPE_def enum_ERR_FRIEND_SEND_MESSAGE_def ToxMessageTypeNormal_def
        ToxMessageTypeAction_def len_def first_elem_def Let_def)
  with FriendSendMessage_type_total [OF ne, of toxcore_h type_echo echo_tox 5 "Some [104, 105]"] ne
  show ?thesis by simp
qed

end
